theory Spec2Isabelle
  imports Complex_Main "HOL-Library.Sublist" "HOL-Library.Multiset"
begin

section \<open>Blood smear analysis: the analysis controller\<close>

text \<open>
  A shallow embedding of \<^verbatim>\<open>server/src/controllers/analysisController.js\<close>.
  JavaScript numbers are idealised as exact real numbers (\<^typ>\<open>real\<close>), integral results of
  \<^verbatim>\<open>Math.floor\<close> as \<^typ>\<open>int\<close>. The random source \<^verbatim>\<open>Math.random\<close> is a stream
  \<open>rnd :: nat \<Rightarrow> real\<close> together with the index of the next draw; the index is threaded
  through the code in the order in which the source calls \<^verbatim>\<open>Math.random()\<close>.
\<close>

subsection \<open>Constants\<close>

definition DISEASE_TYPES :: "string list" where
  "DISEASE_TYPES =
    [''Normal'',
     ''Malaria (Plasmodium)'',
     ''Babesia'',
     ''Leishmania'',
     ''Acute Lymphoblastic Leukemia'',
     ''Chronic Lymphocytic Leukemia'',
     ''Acute Myeloid Leukemia'',
     ''Chronic Myeloid Leukemia'',
     ''Anemia'',
     ''Thrombocytopenia'']"

text \<open>An entry of \<^verbatim>\<open>CELL_TYPES\<close>: the name and the two ends of \<^verbatim>\<open>normalRange\<close>.\<close>

type_synonym cell_type = "string \<times> real \<times> real"

definition CELL_TYPES :: "cell_type list" where
  "CELL_TYPES =
    [(''Neutrophils'', 40, 60),
     (''Lymphocytes'', 20, 40),
     (''Monocytes'', 2, 8),
     (''Eosinophils'', 1, 4),
     (''Basophils'', 0, 1)]"

subsection \<open>JavaScript primitives\<close>

text \<open>\<^verbatim>\<open>s.includes(sub)\<close>: \<open>sub\<close> occurs in \<open>s\<close> as a contiguous run.\<close>

definition str_includes :: "string \<Rightarrow> string \<Rightarrow> bool" where
  "str_includes s sub = sublist sub s"

text \<open>\<^verbatim>\<open>Math.round\<close> rounds to the nearest integer, halves towards plus infinity.\<close>

definition Math_round :: "real \<Rightarrow> int" where
  "Math_round x = \<lfloor>x + 1 / 2\<rfloor>"

text \<open>The idiom \<^verbatim>\<open>Math.round(x * 100) / 100\<close>.\<close>

definition round2 :: "real \<Rightarrow> real" where
  "round2 x = of_int (Math_round (x * 100)) / 100"

subsection \<open>The result shape\<close>

text \<open>
  \<^verbatim>\<open>cellAbnormalities\<close> is either the three flags (on the primary row) or the empty
  object \<^verbatim>\<open>{}\<close>, here \<open>None\<close>.
\<close>

record cell_abnormalities =
  parasitesDetected :: bool
  abnormalMorphology :: bool
  cellSizeVariation :: bool

record disease_classification =
  diseaseName :: string
  probability :: real
  cellAbnormalities :: "cell_abnormalities option"

record cell_count =
  cellType :: string
  count :: int
  percentage :: real
  abnormalCount :: int

text \<open>
  The object returned by \<^verbatim>\<open>generateMockAnalysisResults\<close> and by a successful
  \<^verbatim>\<open>runAIInference\<close>. The fields carry the prefix \<open>res_\<close> to keep them apart from the
  fields of the Analysis document.
\<close>

record ai_result =
  res_diseaseDetected :: string
  res_confidenceScore :: real
  res_rbcCount :: int
  res_wbcCount :: int
  res_plateletCount :: int
  res_analysisNotes :: string
  res_diseaseClassifications :: "disease_classification list"
  res_cellCounts :: "cell_count list"

subsection \<open>generateMockAnalysisResults\<close>

text \<open>
  One row of \<^verbatim>\<open>DISEASE_TYPES.map((disease, idx) => ...)\<close>. Every row makes exactly one
  draw: the primary row for \<^verbatim>\<open>cellSizeVariation\<close>, every other row for its probability.
  The rows are built in index order, so row \<open>idx\<close> uses draw \<open>k + idx\<close>.
\<close>

definition classificationRow ::
  "(nat \<Rightarrow> real) \<Rightarrow> nat \<Rightarrow> int \<Rightarrow> real \<Rightarrow> nat \<times> string \<Rightarrow> disease_classification" where
  "classificationRow rnd k diseaseIndex confidenceScore p =
    (case p of (idx, disease) \<Rightarrow>
      (let r = rnd (k + idx);
           prob = (if int idx = diseaseIndex then confidenceScore
                   else r * (100 - confidenceScore) / of_nat (length DISEASE_TYPES))
       in \<lparr> diseaseName = disease,
            probability = round2 prob,
            cellAbnormalities =
              (if int idx = diseaseIndex then
                 Some \<lparr> parasitesDetected =
                          (str_includes disease ''Malaria'' \<or> str_includes disease ''Babesia''),
                        abnormalMorphology = str_includes disease ''Leukemia'',
                        cellSizeVariation = (r > 1 / 2) \<rparr>
               else None) \<rparr>))"

text \<open>
  One entry of \<^verbatim>\<open>CELL_TYPES.map(...)\<close>, from draw \<open>k\<close> on; returns the row and the index of
  the next unused draw. \<^verbatim>\<open>&&\<close> short-circuits, so the draw for \<^verbatim>\<open>isAbnormal\<close> is made only
  when the primary disease name includes \<^verbatim>\<open>Leukemia\<close>; the draw for \<^verbatim>\<open>abnormalCount\<close> only
  when \<^verbatim>\<open>isAbnormal\<close> holds.
\<close>

definition cellCountRow ::
  "(nat \<Rightarrow> real) \<Rightarrow> string \<Rightarrow> nat \<Rightarrow> cell_type \<Rightarrow> cell_count \<times> nat" where
  "cellCountRow rnd primaryDisease k ct =
    (case ct of (name, lo, hi) \<Rightarrow>
      (let leuk = str_includes primaryDisease ''Leukemia'';
           isAbnormal = (leuk \<and> rnd k > 3 / 10);
           k1 = (if leuk then k + 1 else k);
           basePercentage = (if isAbnormal then lo + rnd k1 * 30
                             else lo + rnd k1 * (hi - lo));
           k2 = k1 + 1;
           pct = round2 basePercentage;
           cnt = \<lfloor>pct * 100\<rfloor>;
           abn = (if isAbnormal then \<lfloor>of_int cnt * (2 / 10 + rnd k2 * (3 / 10))\<rfloor> else 0);
           k3 = (if isAbnormal then k2 + 1 else k2)
       in (\<lparr> cellType = name, count = cnt, percentage = pct, abnormalCount = abn \<rparr>, k3)))"

fun cellCountRows ::
  "(nat \<Rightarrow> real) \<Rightarrow> string \<Rightarrow> nat \<Rightarrow> cell_type list \<Rightarrow> cell_count list \<times> nat" where
  "cellCountRows rnd primaryDisease k [] = ([], k)"
| "cellCountRows rnd primaryDisease k (ct # cts) =
    (case cellCountRow rnd primaryDisease k ct of (row, k') \<Rightarrow>
      (case cellCountRows rnd primaryDisease k' cts of (rows, k'') \<Rightarrow> (row # rows, k'')))"

definition notesFor :: "string \<Rightarrow> string" where
  "notesFor primaryDisease =
    (if primaryDisease = ''Normal'' then
       ''Blood smear shows normal cellular morphology. RBC, WBC, and platelet counts within expected ranges. No abnormal cells or parasites detected.''
     else if str_includes primaryDisease ''Malaria'' then
       ''Parasitic inclusions consistent with Plasmodium detected in red blood cells. Recommend confirmatory testing and immediate treatment protocol.''
     else if str_includes primaryDisease ''Leukemia'' then
       ''Abnormal white blood cell morphology detected. Increased blast cell population observed. Recommend hematology consultation and bone marrow biopsy.''
     else if str_includes primaryDisease ''Anemia'' then
       ''Reduced red blood cell count with variations in cell size and shape. Consider iron studies and further investigation of underlying cause.''
     else
       ''Abnormal findings detected. Clinical correlation and additional testing recommended.'')"

text \<open>
  The error the generator can throw: a \<^verbatim>\<open>TypeError\<close> of the JavaScript runtime (a method
  called on \<^verbatim>\<open>undefined\<close>).
\<close>

datatype js_error = TypeError

text \<open>
  \<^verbatim>\<open>generateMockAnalysisResults\<close>. Draw 0 picks the disease, draw 1 the confidence, draws
  2 to 11 belong to the ten classification rows, the cell rows draw from 12 on, and the
  three blood counts use the next three draws. \<^verbatim>\<open>DISEASE_TYPES[diseaseIndex]\<close> out of
  range is \<^verbatim>\<open>undefined\<close>, and \<^verbatim>\<open>primaryDisease.includes\<close> then throws.
  The comparator of \<^verbatim>\<open>sort\<close> orders by descending probability; the sort is stable.
\<close>

definition generateMockAnalysisResults :: "(nat \<Rightarrow> real) \<Rightarrow> js_error + ai_result" where
  "generateMockAnalysisResults rnd =
    (let diseaseIndex = \<lfloor>rnd 0 * of_nat (length DISEASE_TYPES)\<rfloor> in
     if diseaseIndex < 0 \<or> int (length DISEASE_TYPES) \<le> diseaseIndex then Inl TypeError
     else
       (let primaryDisease = DISEASE_TYPES ! nat diseaseIndex;
            confidenceScore = 85 + rnd 1 * 12;
            diseaseClassifications =
              sort_key (\<lambda>d. - probability d)
                (map (classificationRow rnd 2 diseaseIndex confidenceScore)
                   (enumerate 0 DISEASE_TYPES))
        in (case cellCountRows rnd primaryDisease (2 + length DISEASE_TYPES) CELL_TYPES of
             (cellCounts, k) \<Rightarrow>
               Inr \<lparr> res_diseaseDetected = primaryDisease,
                     res_confidenceScore = round2 confidenceScore,
                     res_rbcCount = 4500000 + \<lfloor>rnd k * 1000000\<rfloor>,
                     res_wbcCount = 4000 + \<lfloor>rnd (k + 1) * 7000\<rfloor>,
                     res_plateletCount = 150000 + \<lfloor>rnd (k + 2) * 250000\<rfloor>,
                     res_analysisNotes = notesFor primaryDisease,
                     res_diseaseClassifications = diseaseClassifications,
                     res_cellCounts = cellCounts \<rparr>)))"

subsection \<open>runAIInference\<close>

text \<open>
  What the external Python process can do: the \<^verbatim>\<open>exec\<close> promise rejects (no runtime, no
  script, no model file, non-zero exit), its output is not JSON, or it parses to an object
  with a \<^verbatim>\<open>success\<close> flag. \<^verbatim>\<open>runAIInference\<close> catches every error and returns \<^verbatim>\<open>null\<close>;
  only a parsed object with a true \<^verbatim>\<open>success\<close> flag is returned.
\<close>

datatype inference_outcome = ExecFailed | ParseFailed | Parsed bool ai_result

fun runAIInference :: "inference_outcome \<Rightarrow> ai_result option" where
  "runAIInference ExecFailed = None"
| "runAIInference ParseFailed = None"
| "runAIInference (Parsed success result) = (if success then Some result else None)"

subsection \<open>Documents and collections\<close>

datatype status = Pending | Processing | Completed | Failed

text \<open>An Analysis document; its \<^verbatim>\<open>_id\<close> is the key under which the collection holds it.\<close>

record analysis =
  userId :: nat
  imageUrl :: string
  status :: status
  diseaseDetected :: "string option"
  confidenceScore :: "real option"
  rbcCount :: "int option"
  wbcCount :: "int option"
  plateletCount :: "int option"
  analysisNotes :: "string option"
  completedAt :: "nat option"

datatype notification_type = Success | Info | Warning | Error

record notification =
  n_userId :: nat
  title :: string
  message :: string
  n_type :: notification_type
  n_analysisId :: "nat option"

text \<open>
  A detail document is the row of the result with \<^verbatim>\<open>analysisId\<close> put in front:
  \<^verbatim>\<open>{ analysisId: analysis._id, ...dc }\<close>.
\<close>

type_synonym classification_doc = "nat \<times> disease_classification"
type_synonym cell_count_doc = "nat \<times> cell_count"

record db =
  analysisColl :: "nat \<Rightarrow> analysis option"
  classificationColl :: "classification_doc list"
  cellCountColl :: "cell_count_doc list"
  notificationColl :: "notification list"
  nextId :: nat

definition emptyDb :: db where
  "emptyDb = \<lparr> analysisColl = (\<lambda>_. None), classificationColl = [], cellCountColl = [],
               notificationColl = [], nextId = 0 \<rparr>"

text \<open>
  Every awaited database call of the controller can reject. Which calls do is a parameter
  of each handler: a predicate on the call sites.
\<close>

datatype db_call =
    Analysis_create
  | Analysis_findById
  | Save_processing
  | Save_completed
  | DiseaseClassification_insertMany
  | CellCount_insertMany
  | Notification_create_success
  | Save_failed
  | Notification_create_error
  | DiseaseClassification_find
  | CellCount_find
  | DiseaseClassification_deleteMany
  | CellCount_deleteMany
  | Analysis_deleteOne

datatype response =
    Json201 nat analysis
  | Json200_started
  | Json200_details analysis "classification_doc list" "cell_count_doc list"
  | Json200_deleted
  | Status400
  | Status403
  | Status404
  | Status500

subsection \<open>createAnalysis\<close>

text \<open>
  \<^verbatim>\<open>!imageUrl\<close> holds for a missing and for an empty string. The new document gets a
  fresh \<^verbatim>\<open>_id\<close>, here the counter \<open>nextId\<close>.
\<close>

definition createAnalysis ::
  "(db_call \<Rightarrow> bool) \<Rightarrow> nat \<Rightarrow> string option \<Rightarrow> db \<Rightarrow> response \<times> db" where
  "createAnalysis flt user imageUrlOpt d =
    (case imageUrlOpt of
       None \<Rightarrow> (Status400, d)
     | Some url \<Rightarrow>
        if url = [] then (Status400, d)
        else if flt Analysis_create then (Status500, d)
        else
          (let doc = \<lparr> userId = user, imageUrl = url, status = Pending,
                       diseaseDetected = None, confidenceScore = None, rbcCount = None,
                       wbcCount = None, plateletCount = None, analysisNotes = None,
                       completedAt = None \<rparr>
           in (Json201 (nextId d) doc,
               d\<lparr> analysisColl := (analysisColl d)(nextId d \<mapsto> doc),
                  nextId := Suc (nextId d) \<rparr>)))"

subsection \<open>processAnalysis\<close>

text \<open>
  The callback handed to \<^verbatim>\<open>setTimeout\<close> closes over the in-memory document
  \<^verbatim>\<open>analysis\<close> (already set to \<^verbatim>\<open>processing\<close>) and over \<^verbatim>\<open>req.user._id\<close>.
\<close>

record task =
  t_id :: nat
  t_analysis :: analysis
  t_user :: nat

text \<open>
  The synchronous part: the response, the database and the scheduled callback.
  \<^verbatim>\<open>analysis.save()\<close> stores the in-memory document under its \<^verbatim>\<open>_id\<close>: the handlers
  assign \<^verbatim>\<open>status\<close> and the result fields only, and the other fields never change. A
  save that the database refuses, for whatever reason (the document may have been deleted
  meanwhile), is a rejected call.
\<close>

definition processAnalysis ::
  "(db_call \<Rightarrow> bool) \<Rightarrow> nat \<Rightarrow> nat \<Rightarrow> db \<Rightarrow> response \<times> db \<times> task option" where
  "processAnalysis flt ident user d =
    (if flt Analysis_findById then (Status500, d, None)
     else case analysisColl d ident of
       None \<Rightarrow> (Status404, d, None)
     | Some found \<Rightarrow>
        if userId found \<noteq> user then (Status403, d, None)
        else
          (let doc = found\<lparr> status := Processing \<rparr> in
           if flt Save_processing then (Status500, d, None)
           else (Json200_started,
                 d\<lparr> analysisColl := (analysisColl d)(ident \<mapsto> doc) \<rparr>,
                 Some \<lparr> t_id = ident, t_analysis = doc, t_user = user \<rparr>)))"

text \<open>The two notifications the callback can create.\<close>

definition successNotification :: "task \<Rightarrow> ai_result \<Rightarrow> notification" where
  "successNotification t aiResults =
    \<lparr> n_userId = t_user t,
      title = ''Analysis Complete'',
      message = ''Your blood smear analysis is complete. Disease detected: ''
                  @ res_diseaseDetected aiResults,
      n_type = Success,
      n_analysisId = Some (t_id t) \<rparr>"

definition errorNotification :: "task \<Rightarrow> notification" where
  "errorNotification t =
    \<lparr> n_userId = t_user t,
      title = ''Analysis Failed'',
      message = ''There was an error processing your blood smear analysis. Please try again.'',
      n_type = Error,
      n_analysisId = Some (t_id t) \<rparr>"

text \<open>
  The \<^verbatim>\<open>catch\<close> block of the callback: the in-memory document, whatever was assigned to
  it before the throw, gets \<^verbatim>\<open>status = 'failed'\<close> and is saved, then the error notification
  is created. A rejection of one of these two calls escapes the callback.
\<close>

definition completionCatch :: "(db_call \<Rightarrow> bool) \<Rightarrow> task \<Rightarrow> analysis \<Rightarrow> db \<Rightarrow> db" where
  "completionCatch flt t doc d =
    (if flt Save_failed then d
     else
       (let d1 = d\<lparr> analysisColl := (analysisColl d)(t_id t \<mapsto> doc\<lparr> status := Failed \<rparr>) \<rparr> in
        if flt Notification_create_error then d1
        else d1\<lparr> notificationColl := notificationColl d1 @ [errorNotification t] \<rparr>))"

text \<open>
  Lines 174 to 179: the result of the inference, or the mock result when it is \<^verbatim>\<open>null\<close>.
\<close>

definition obtainResults :: "inference_outcome \<Rightarrow> (nat \<Rightarrow> real) \<Rightarrow> js_error + ai_result" where
  "obtainResults out rnd =
    (case runAIInference out of
       Some aiResults \<Rightarrow> Inr aiResults
     | None \<Rightarrow> generateMockAnalysisResults rnd)"

text \<open>
  Lines 181 to 188: the assignments to the in-memory document. \<open>now\<close> is the value of
  \<^verbatim>\<open>new Date()\<close>.
\<close>

definition assignResults :: "analysis \<Rightarrow> ai_result \<Rightarrow> nat \<Rightarrow> analysis" where
  "assignResults doc aiResults now =
    doc\<lparr> status := Completed,
         diseaseDetected := Some (res_diseaseDetected aiResults),
         confidenceScore := Some (res_confidenceScore aiResults),
         rbcCount := Some (res_rbcCount aiResults),
         wbcCount := Some (res_wbcCount aiResults),
         plateletCount := Some (res_plateletCount aiResults),
         analysisNotes := Some (res_analysisNotes aiResults),
         completedAt := Some now \<rparr>"

text \<open>
  The callback, run to its end. Each \<^verbatim>\<open>insertMany\<close> is taken to insert all its rows or
  none.
\<close>

definition completion ::
  "(db_call \<Rightarrow> bool) \<Rightarrow> inference_outcome \<Rightarrow> (nat \<Rightarrow> real) \<Rightarrow> nat \<Rightarrow> task \<Rightarrow> db \<Rightarrow> db" where
  "completion flt out rnd now t d =
    (case obtainResults out rnd of
       Inl e \<Rightarrow> completionCatch flt t (t_analysis t) d
     | Inr aiResults \<Rightarrow>
        (let doc = assignResults (t_analysis t) aiResults now in
         if flt Save_completed then completionCatch flt t doc d
         else
           (let d1 = d\<lparr> analysisColl := (analysisColl d)(t_id t \<mapsto> doc) \<rparr> in
            if flt DiseaseClassification_insertMany then completionCatch flt t doc d1
            else
              (let d2 = d1\<lparr> classificationColl := classificationColl d1 @
                          map (Pair (t_id t)) (res_diseaseClassifications aiResults) \<rparr> in
               if flt CellCount_insertMany then completionCatch flt t doc d2
               else
                 (let d3 = d2\<lparr> cellCountColl := cellCountColl d2 @
                             map (Pair (t_id t)) (res_cellCounts aiResults) \<rparr> in
                  if flt Notification_create_success then completionCatch flt t doc d3
                  else d3\<lparr> notificationColl := notificationColl d3 @
                         [successNotification t aiResults] \<rparr>)))))"

subsection \<open>getAnalysisById and deleteAnalysis\<close>

definition getAnalysisById ::
  "(db_call \<Rightarrow> bool) \<Rightarrow> nat \<Rightarrow> nat \<Rightarrow> db \<Rightarrow> response \<times> db" where
  "getAnalysisById flt ident user d =
    (if flt Analysis_findById then (Status500, d)
     else case analysisColl d ident of
       None \<Rightarrow> (Status404, d)
     | Some found \<Rightarrow>
        if userId found \<noteq> user then (Status403, d)
        else if flt DiseaseClassification_find then (Status500, d)
        else if flt CellCount_find then (Status500, d)
        else
          (Json200_details found
             (sort_key (\<lambda>r. - probability (snd r))
                (filter (\<lambda>r. fst r = ident) (classificationColl d)))
             (sort_key (\<lambda>r. - percentage (snd r))
                (filter (\<lambda>r. fst r = ident) (cellCountColl d))),
           d))"

definition deleteAnalysis ::
  "(db_call \<Rightarrow> bool) \<Rightarrow> nat \<Rightarrow> nat \<Rightarrow> db \<Rightarrow> response \<times> db" where
  "deleteAnalysis flt ident user d =
    (if flt Analysis_findById then (Status500, d)
     else case analysisColl d ident of
       None \<Rightarrow> (Status404, d)
     | Some found \<Rightarrow>
        if userId found \<noteq> user then (Status403, d)
        else if flt DiseaseClassification_deleteMany then (Status500, d)
        else
          (let d1 = d\<lparr> classificationColl :=
                        filter (\<lambda>r. fst r \<noteq> ident) (classificationColl d) \<rparr> in
           if flt CellCount_deleteMany then (Status500, d1)
           else
             (let d2 = d1\<lparr> cellCountColl :=
                           filter (\<lambda>r. fst r \<noteq> ident) (cellCountColl d1) \<rparr> in
              if flt Analysis_deleteOne then (Status500, d2)
              else (Json200_deleted,
                    d2\<lparr> analysisColl := (analysisColl d2)(ident := None) \<rparr>))))"

subsection \<open>The running server\<close>

text \<open>
  The server's state is the database and the callbacks that \<^verbatim>\<open>setTimeout\<close> holds. A
  step is one request handled or one callback run; which database calls reject, what the
  inference process does, the random draws and the clock are free in every step.
\<close>

record server =
  store :: db
  timers :: "task list"

definition initial :: server where
  "initial = \<lparr> store = emptyDb, timers = [] \<rparr>"

inductive step :: "server \<Rightarrow> server \<Rightarrow> bool" where
  step_create:
    "createAnalysis flt user imageUrlOpt (store s) = (resp, d') \<Longrightarrow>
     step s (s\<lparr> store := d' \<rparr>)"
| step_process:
    "processAnalysis flt ident user (store s) = (resp, d', scheduled) \<Longrightarrow>
     step s \<lparr> store = d',
              timers = timers s @ (case scheduled of None \<Rightarrow> [] | Some t \<Rightarrow> [t]) \<rparr>"
| step_callback:
    "t \<in> set (timers s) \<Longrightarrow>
     step s \<lparr> store = completion flt out rnd now t (store s),
              timers = remove1 t (timers s) \<rparr>"
| step_get:
    "getAnalysisById flt ident user (store s) = (resp, d') \<Longrightarrow>
     step s (s\<lparr> store := d' \<rparr>)"
| step_delete:
    "deleteAnalysis flt ident user (store s) = (resp, d') \<Longrightarrow>
     step s (s\<lparr> store := d' \<rparr>)"

inductive reachable :: "server \<Rightarrow> bool" where
  reachable_initial: "reachable initial"
| reachable_step: "reachable s \<Longrightarrow> step s s' \<Longrightarrow> reachable s'"

text \<open>The status stored for an Analysis, if the Analysis is stored.\<close>

definition statusOf :: "db \<Rightarrow> nat \<Rightarrow> status option" where
  "statusOf d ident = map_option status (analysisColl d ident)"

text \<open>The detail rows that \<^verbatim>\<open>find({ analysisId: id })\<close> retrieves.\<close>

definition classificationsOf :: "db \<Rightarrow> nat \<Rightarrow> disease_classification list" where
  "classificationsOf d ident = map snd (filter (\<lambda>r. fst r = ident) (classificationColl d))"

definition cellCountsOf :: "db \<Rightarrow> nat \<Rightarrow> cell_count list" where
  "cellCountsOf d ident = map snd (filter (\<lambda>r. fst r = ident) (cellCountColl d))"

subsection \<open>A sample run\<close>

text \<open>
  User 1 creates an Analysis for the image \<^verbatim>\<open>img-1\<close> in the empty database and starts its
  processing; no database call rejects.
\<close>

definition noFaults :: "db_call \<Rightarrow> bool" where
  "noFaults c = False"

definition sampleDoc :: analysis where
  "sampleDoc = \<lparr> userId = 1, imageUrl = ''img-1'', status = Pending,
                 diseaseDetected = None, confidenceScore = None, rbcCount = None,
                 wbcCount = None, plateletCount = None, analysisNotes = None,
                 completedAt = None \<rparr>"

definition sampleTask :: task where
  "sampleTask = \<lparr> t_id = 0, t_analysis = sampleDoc\<lparr> status := Processing \<rparr>, t_user = 1 \<rparr>"

definition sampleDb :: db where
  "sampleDb = \<lparr> analysisColl = (\<lambda>_. None)(0 \<mapsto> sampleDoc\<lparr> status := Processing \<rparr>),
                classificationColl = [], cellCountColl = [], notificationColl = [],
                nextId = 1 \<rparr>"

text \<open>The server after the create and the start of the sample run.\<close>

definition sampleStarted :: server where
  "sampleStarted = \<lparr> store = sampleDb, timers = [sampleTask] \<rparr>"

text \<open>The server once the callback of the sample run has completed the Analysis.\<close>

definition sampleCompleted :: server where
  "sampleCompleted =
    \<lparr> store = completion noFaults ExecFailed (\<lambda>_. 0) 0 sampleTask sampleDb, timers = [] \<rparr>"

text \<open>The owner starts the processing of the completed Analysis once more.\<close>

definition sampleRestarted :: server where
  "sampleRestarted =
    (case processAnalysis noFaults 0 1 (store sampleCompleted) of
       (resp, d', scheduled) \<Rightarrow>
         \<lparr> store = d',
           timers = timers sampleCompleted @ (case scheduled of None \<Rightarrow> [] | Some t \<Rightarrow> [t]) \<rparr>)"

text \<open>The callback of the second start runs, again on the fallback path.\<close>

definition sampleReprocessed :: db where
  "sampleReprocessed =
    (case timers sampleRestarted of
       [] \<Rightarrow> store sampleRestarted
     | t # _ \<Rightarrow> completion noFaults ExecFailed (\<lambda>_. 0) 0 t (store sampleRestarted))"

text \<open>
  An answer of the inference process that parses and reports success, with numbers
  outside the ranges of the data model.
\<close>

definition sampleOutOfRange :: ai_result where
  "sampleOutOfRange =
    \<lparr> res_diseaseDetected = ''Normal'',
      res_confidenceScore = 150,
      res_rbcCount = 4500000,
      res_wbcCount = 4000,
      res_plateletCount = 150000,
      res_analysisNotes = ''ok'',
      res_diseaseClassifications =
        [\<lparr> diseaseName = ''Normal'', probability = 150, cellAbnormalities = None \<rparr>],
      res_cellCounts =
        [\<lparr> cellType = ''Neutrophils'', count = 1, percentage = 250, abnormalCount = 5 \<rparr>] \<rparr>"

text \<open>An answer of the inference process with numbers inside the ranges.\<close>

definition sampleInRange :: ai_result where
  "sampleInRange =
    \<lparr> res_diseaseDetected = ''Anemia'',
      res_confidenceScore = 90,
      res_rbcCount = 4500000,
      res_wbcCount = 4000,
      res_plateletCount = 150000,
      res_analysisNotes = ''ok'',
      res_diseaseClassifications =
        [\<lparr> diseaseName = ''Anemia'', probability = 90, cellAbnormalities = None \<rparr>],
      res_cellCounts =
        [\<lparr> cellType = ''Neutrophils'', count = 5000, percentage = 50, abnormalCount = 10 \<rparr>] \<rparr>"

subsection \<open>Numeric ranges of the data model\<close>

text \<open>
  Every stored confidence score lies in \<open>[0, 100]\<close>, and every stored cell-count row has
  its percentage in \<open>[0, 100]\<close> and no more abnormal cells than cells.
\<close>

definition boundsOk :: "db \<Rightarrow> bool" where
  "boundsOk d \<longleftrightarrow>
    (\<forall>i a c. analysisColl d i = Some a \<longrightarrow> confidenceScore a = Some c \<longrightarrow> 0 \<le> c \<and> c \<le> 100) \<and>
    (\<forall>r \<in> set (cellCountColl d).
       0 \<le> percentage (snd r) \<and> percentage (snd r) \<le> 100 \<and>
       abnormalCount (snd r) \<le> count (snd r))"

text \<open>The same ranges, for a result before it is stored.\<close>

definition resultInRange :: "ai_result \<Rightarrow> bool" where
  "resultInRange r \<longleftrightarrow>
    0 \<le> res_confidenceScore r \<and> res_confidenceScore r \<le> 100 \<and>
    (\<forall>cc \<in> set (res_cellCounts r).
       0 \<le> percentage cc \<and> percentage cc \<le> 100 \<and> abnormalCount cc \<le> count cc)"

subsection \<open>An invariant of the running server\<close>

text \<open>No stored identifier is ahead of the counter, and no callback waits for a pending Analysis.\<close>

definition timersOk :: "server \<Rightarrow> bool" where
  "timersOk s \<longleftrightarrow>
    (\<forall>i. nextId (store s) \<le> i \<longrightarrow> analysisColl (store s) i = None) \<and>
    (\<forall>t \<in> set (timers s).
       t_id t < nextId (store s) \<and> statusOf (store s) (t_id t) \<noteq> Some Pending)"

section \<open>Properties of the result generator\<close>

subsection \<open>Rounding\<close>

lemma round2_ge: "real_of_int m \<le> x * 100 \<Longrightarrow> of_int m / 100 \<le> round2 x"
proof -
  assume "real_of_int m \<le> x * 100"
  then have "real_of_int m \<le> x * 100 + 1 / 2" by simp
  then have "m \<le> Math_round (x * 100)" unfolding Math_round_def by (simp only: le_floor_iff)
  then show ?thesis by (simp add: round2_def divide_right_mono)
qed

lemma round2_le: "x * 100 \<le> real_of_int m \<Longrightarrow> round2 x \<le> of_int m / 100"
proof -
  assume "x * 100 \<le> real_of_int m"
  then have "x * 100 + 1 / 2 < real_of_int m + 1" by simp
  then have "Math_round (x * 100) \<le> m" unfolding Math_round_def by (simp only: floor_le_iff)
  then show ?thesis by (simp add: round2_def divide_right_mono)
qed

subsection \<open>The shape of the generated result\<close>

lemma length_DISEASE_TYPES: "length DISEASE_TYPES = 10"
  by (simp add: DISEASE_TYPES_def)

lemma distinct_DISEASE_TYPES: "distinct DISEASE_TYPES"
  by (simp add: DISEASE_TYPES_def)

lemma distinct_CELL_TYPES: "distinct (map fst CELL_TYPES)"
  by (simp add: CELL_TYPES_def)

lemma generateMock_Inr_iff:
  "(\<exists>r. generateMockAnalysisResults rnd = Inr r) \<longleftrightarrow> (0 \<le> \<lfloor>rnd 0 * 10\<rfloor> \<and> \<lfloor>rnd 0 * 10\<rfloor> < 10)"
  by (auto simp: generateMockAnalysisResults_def Let_def length_DISEASE_TYPES split: prod.splits)

lemma generateMock_fields:
  assumes "generateMockAnalysisResults rnd = Inr r"
  shows "0 \<le> \<lfloor>rnd 0 * 10\<rfloor>" and "\<lfloor>rnd 0 * 10\<rfloor> < 10"
    and "res_diseaseDetected r = DISEASE_TYPES ! nat \<lfloor>rnd 0 * 10\<rfloor>"
    and "res_confidenceScore r = round2 (85 + rnd 1 * 12)"
    and "res_diseaseClassifications r =
           sort_key (\<lambda>d. - probability d)
             (map (classificationRow rnd 2 \<lfloor>rnd 0 * 10\<rfloor> (85 + rnd 1 * 12))
                (enumerate 0 DISEASE_TYPES))"
    and "res_cellCounts r =
           fst (cellCountRows rnd (DISEASE_TYPES ! nat \<lfloor>rnd 0 * 10\<rfloor>) 12 CELL_TYPES)"
    and "res_analysisNotes r = notesFor (DISEASE_TYPES ! nat \<lfloor>rnd 0 * 10\<rfloor>)"
  using assms
  by (auto simp: generateMockAnalysisResults_def Let_def length_DISEASE_TYPES
      split: prod.splits if_splits)

lemma floor_unit_times:
  fixes r :: real
  assumes "0 \<le> r" "r < 1"
  shows "0 \<le> \<lfloor>r * 10\<rfloor> \<and> \<lfloor>r * 10\<rfloor> < 10"
  using assms by (simp add: floor_less_iff)

lemma cellCountRows_all:
  assumes "\<And>k ct. ct \<in> set cts \<Longrightarrow> P (fst (cellCountRow rnd p k ct))"
  shows "\<forall>cc \<in> set (fst (cellCountRows rnd p k cts)). P cc"
  using assms
proof (induction cts arbitrary: k)
  case Nil
  then show ?case by simp
next
  case (Cons ct cts)
  obtain row k' where r: "cellCountRow rnd p k ct = (row, k')" by (cases "cellCountRow rnd p k ct")
  obtain rows k'' where rs: "cellCountRows rnd p k' cts = (rows, k'')"
    by (cases "cellCountRows rnd p k' cts")
  have "P row" using Cons.prems[of ct k] r by simp
  moreover have "\<forall>cc \<in> set rows. P cc" using Cons.IH[of k'] Cons.prems rs by simp
  ultimately show ?case using r rs by simp
qed

lemma cellCountRows_cellType:
  "map cellType (fst (cellCountRows rnd p k cts)) = map fst cts"
proof (induction cts arbitrary: k)
  case Nil
  then show ?case by simp
next
  case (Cons ct cts)
  obtain row k' where r: "cellCountRow rnd p k ct = (row, k')" by (cases "cellCountRow rnd p k ct")
  obtain rows k'' where rs: "cellCountRows rnd p k' cts = (rows, k'')"
    by (cases "cellCountRows rnd p k' cts")
  have "cellType row = fst ct" using r by (auto simp: cellCountRow_def Let_def split: prod.splits)
  then show ?case using r rs Cons.IH[of k'] by simp
qed



subsection \<open>Bounds of the generated numbers\<close>

lemma cellCountRow_bounds:
  assumes rnd: "\<forall>i. 0 \<le> rnd i \<and> rnd i < 1" and ct: "ct \<in> set CELL_TYPES"
  shows "0 \<le> percentage (fst (cellCountRow rnd p k ct))"
    and "percentage (fst (cellCountRow rnd p k ct)) \<le> 100"
    and "0 \<le> count (fst (cellCountRow rnd p k ct))"
    and "0 \<le> abnormalCount (fst (cellCountRow rnd p k ct))"
    and "abnormalCount (fst (cellCountRow rnd p k ct)) \<le> count (fst (cellCountRow rnd p k ct))"
proof -
  obtain name lo hi where c: "ct = (name, lo, hi)" by (cases ct)
  have range: "0 \<le> lo" "lo \<le> hi" "hi \<le> 60" "lo \<le> 40"
    using ct unfolding c CELL_TYPES_def by auto
  define leuk where "leuk = str_includes p ''Leukemia''"
  define isAbnormal where "isAbnormal = (leuk \<and> rnd k > 3 / 10)"
  define k1 where "k1 = (if leuk then k + 1 else k)"
  define base where "base = (if isAbnormal then lo + rnd k1 * 30 else lo + rnd k1 * (hi - lo))"
  define pct where "pct = round2 base"
  define cnt where "cnt = \<lfloor>pct * 100\<rfloor>"
  define f where "f = 2 / 10 + rnd (k1 + 1) * (3 / 10)"
  define abn where "abn = (if isAbnormal then \<lfloor>of_int cnt * f\<rfloor> else 0)"
  have row: "fst (cellCountRow rnd p k ct) =
      \<lparr> cellType = name, count = cnt, percentage = pct, abnormalCount = abn \<rparr>"
    unfolding c cellCountRow_def
    by (simp add: Let_def leuk_def isAbnormal_def k1_def base_def pct_def cnt_def f_def abn_def)
  have r1: "0 \<le> rnd k1" "rnd k1 < 1" using rnd by auto
  have "0 \<le> rnd k1 * (hi - lo)" using r1 range by simp
  moreover have "rnd k1 * (hi - lo) \<le> 1 * (hi - lo)"
    using r1 range by (intro mult_right_mono) auto
  moreover have "0 \<le> rnd k1 * 30" "rnd k1 * 30 \<le> 30" using r1 by auto
  ultimately have base: "0 \<le> base" "base \<le> 70"
    using range unfolding base_def by (auto split: if_splits)
  have "real_of_int 0 \<le> base * 100" using base by simp
  from round2_ge[OF this] have p0: "0 \<le> pct" by (simp add: pct_def)
  have "base * 100 \<le> real_of_int 7000" using base by simp
  from round2_le[OF this] have p1: "pct \<le> 70" by (simp add: pct_def)
  have c0: "0 \<le> cnt" unfolding cnt_def using p0 by simp
  have f: "0 \<le> f" "f \<le> 1" using rnd[rule_format, of "k1 + 1"] unfolding f_def by auto
  have "0 \<le> of_int cnt * f" using c0 f by simp
  then have a0: "0 \<le> abn" unfolding abn_def by simp
  have "of_int cnt * f \<le> of_int cnt * 1" using c0 f by (intro mult_left_mono) auto
  then have "\<lfloor>of_int cnt * f\<rfloor> \<le> cnt" by (simp add: floor_le_iff)
  then have a1: "abn \<le> cnt" unfolding abn_def using c0 by simp
  show "0 \<le> percentage (fst (cellCountRow rnd p k ct))" using p0 row by simp
  show "percentage (fst (cellCountRow rnd p k ct)) \<le> 100" using p1 row by simp
  show "0 \<le> count (fst (cellCountRow rnd p k ct))" using c0 row by simp
  show "0 \<le> abnormalCount (fst (cellCountRow rnd p k ct))" using a0 row by simp
  show "abnormalCount (fst (cellCountRow rnd p k ct)) \<le> count (fst (cellCountRow rnd p k ct))"
    using a1 row by simp
qed

lemma confidence_bounds:
  assumes "0 \<le> r" "r < 1"
  shows "85 \<le> round2 (85 + r * 12)" and "round2 (85 + r * 12) \<le> 97"
proof -
  have "real_of_int 8500 \<le> (85 + r * 12) * 100" using assms by simp
  from round2_ge[OF this] show "85 \<le> round2 (85 + r * 12)" by simp
  have "(85 + r * 12) * 100 \<le> real_of_int 9700" using assms by simp
  from round2_le[OF this] show "round2 (85 + r * 12) \<le> 97" by simp
qed

lemma classificationRow_name:
  "diseaseName (classificationRow rnd k di c (idx, disease)) = disease"
  by (simp add: classificationRow_def Let_def)

lemma classificationRow_primary:
  "probability (classificationRow rnd k (int idx) c (idx, disease)) = round2 c"
  by (simp add: classificationRow_def Let_def)

lemma classificationRow_other:
  assumes "0 \<le> rnd (k + idx)" "rnd (k + idx) < 1" "85 \<le> c" "c \<le> 97" "int idx \<noteq> di"
  shows "probability (classificationRow rnd k di c (idx, disease)) \<le> 3 / 2"
    and "0 \<le> probability (classificationRow rnd k di c (idx, disease))"
proof -
  let ?x = "rnd (k + idx) * (100 - c) / real (length DISEASE_TYPES)"
  have p: "probability (classificationRow rnd k di c (idx, disease)) = round2 ?x"
    using assms(5) by (simp add: classificationRow_def Let_def)
  have "rnd (k + idx) * (100 - c) \<le> 1 * 15"
    using assms by (intro mult_mono) auto
  then have "?x * 100 \<le> real_of_int 150" by (simp add: length_DISEASE_TYPES)
  from round2_le[OF this] show "probability (classificationRow rnd k di c (idx, disease)) \<le> 3 / 2"
    using p by simp
  have "0 \<le> rnd (k + idx) * (100 - c)" using assms by simp
  then have "real_of_int 0 \<le> ?x * 100" by (simp add: length_DISEASE_TYPES)
  from round2_ge[OF this] show "0 \<le> probability (classificationRow rnd k di c (idx, disease))"
    using p by simp
qed

subsection \<open>The classification table\<close>

lemma enumerate_DISEASE_TYPES:
  "p \<in> set (enumerate 0 DISEASE_TYPES) \<longleftrightarrow> fst p < 10 \<and> snd p = DISEASE_TYPES ! fst p"
  by (cases p) (auto simp: in_set_enumerate_eq length_DISEASE_TYPES)

lemma classificationRows_names:
  "map diseaseName (map (classificationRow rnd k di c) (enumerate 0 DISEASE_TYPES)) = DISEASE_TYPES"
proof -
  have "map diseaseName (map (classificationRow rnd k di c) (enumerate 0 DISEASE_TYPES))
        = map snd (enumerate 0 DISEASE_TYPES)"
    by (simp add: classificationRow_def Let_def split_def comp_def)
  then show ?thesis by simp
qed

lemma classificationRows_top:
  assumes rnd: "\<forall>i. 0 \<le> rnd i \<and> rnd i < 1"
    and di: "0 \<le> di" "di < 10"
    and c: "85 \<le> c" "c \<le> 97" "85 \<le> round2 c"
    and d: "d \<in> set (map (classificationRow rnd k di c) (enumerate 0 DISEASE_TYPES))"
    and top: "\<forall>e \<in> set (map (classificationRow rnd k di c) (enumerate 0 DISEASE_TYPES)).
                probability e \<le> probability d"
  shows "diseaseName d = DISEASE_TYPES ! nat di"
proof -
  let ?rows = "map (classificationRow rnd k di c) (enumerate 0 DISEASE_TYPES)"
  let ?primary = "classificationRow rnd k di c (nat di, DISEASE_TYPES ! nat di)"
  have "(nat di, DISEASE_TYPES ! nat di) \<in> set (enumerate 0 DISEASE_TYPES)"
    using di by (simp add: enumerate_DISEASE_TYPES)
  then have "?primary \<in> set ?rows" unfolding set_map by (rule imageI)
  then have "probability ?primary \<le> probability d" using top by blast
  moreover have "probability ?primary = round2 c"
    using classificationRow_primary[of rnd k "nat di" c] di by simp
  ultimately have big: "85 \<le> probability d" using c by simp
  obtain idx disease where p: "(idx, disease) \<in> set (enumerate 0 DISEASE_TYPES)"
    and dd: "d = classificationRow rnd k di c (idx, disease)"
    using d by auto
  have dis: "disease = DISEASE_TYPES ! idx" using p by (simp add: enumerate_DISEASE_TYPES)
  have "int idx = di"
  proof (rule ccontr)
    assume ne: "int idx \<noteq> di"
    have "probability d \<le> 3 / 2"
      unfolding dd using classificationRow_other(1)[of rnd k idx c di disease] rnd c ne by simp
    then show False using big by simp
  qed
  then have "idx = nat di" by simp
  then show ?thesis unfolding dd by (simp add: classificationRow_name dis)
qed

lemma sort_key_hd_max:
  fixes f :: "'a \<Rightarrow> real"
  assumes "xs \<noteq> []"
  shows "hd (sort_key (\<lambda>x. - f x) xs) \<in> set xs"
    and "\<forall>e \<in> set xs. f e \<le> f (hd (sort_key (\<lambda>x. - f x) xs))"
proof -
  let ?ys = "sort_key (\<lambda>x. - f x) xs"
  have ne: "?ys \<noteq> []" using assms by (metis length_0_conv length_sort)
  then obtain y ys where ys: "?ys = y # ys" by (cases ?ys) auto
  have "y \<in> set ?ys" using ys by simp
  then have "y \<in> set xs" by (simp only: set_sort)
  then show "hd ?ys \<in> set xs" using ys by simp
  have "sorted (map (\<lambda>x. - f x) ?ys)" by (rule sorted_sort_key)
  then have "\<forall>e \<in> set ys. - f y \<le> - f e" unfolding ys by simp
  then have "\<forall>e \<in> set (y # ys). f e \<le> f y" by auto
  then have "\<forall>e \<in> set ?ys. f e \<le> f y" using ys by simp
  then have "\<forall>e \<in> set xs. f e \<le> f y" by (simp only: set_sort)
  then show "\<forall>e \<in> set xs. f e \<le> f (hd ?ys)" using ys by simp
qed

subsection \<open>The generator as a whole\<close>

lemma generateMock_total:
  assumes "0 \<le> rnd 0" "rnd 0 < 1"
  shows "\<exists>r. generateMockAnalysisResults rnd = Inr r"
  using floor_unit_times[OF assms] by (simp add: generateMock_Inr_iff)

lemma generateMock_disease:
  assumes "generateMockAnalysisResults rnd = Inr r"
  shows "res_diseaseDetected r \<in> set DISEASE_TYPES"
proof -
  have "nat \<lfloor>rnd 0 * 10\<rfloor> < length DISEASE_TYPES"
    using generateMock_fields(1,2)[OF assms] unfolding length_DISEASE_TYPES by linarith
  then have "DISEASE_TYPES ! nat \<lfloor>rnd 0 * 10\<rfloor> \<in> set DISEASE_TYPES" by (rule nth_mem)
  then show ?thesis by (simp only: generateMock_fields(3)[OF assms])
qed

lemma generateMock_confidence:
  assumes "generateMockAnalysisResults rnd = Inr r" "0 \<le> rnd 1" "rnd 1 < 1"
  shows "85 \<le> res_confidenceScore r" and "res_confidenceScore r \<le> 97"
  using generateMock_fields(4)[OF assms(1)] confidence_bounds[OF assms(2,3)] by simp_all

lemma generateMock_classification_names:
  assumes "generateMockAnalysisResults rnd = Inr r"
  shows "mset (map diseaseName (res_diseaseClassifications r)) = mset DISEASE_TYPES"
proof -
  let ?rows = "map (classificationRow rnd 2 \<lfloor>rnd 0 * 10\<rfloor> (85 + rnd 1 * 12))
                 (enumerate 0 DISEASE_TYPES)"
  have "mset (map diseaseName (sort_key (\<lambda>d. - probability d) ?rows))
        = mset (map diseaseName ?rows)"
    by (simp only: mset_map mset_sort)
  also have "\<dots> = mset DISEASE_TYPES" by (simp only: classificationRows_names)
  finally show ?thesis by (simp only: generateMock_fields(5)[OF assms])
qed

lemma generateMock_classification_length:
  assumes "generateMockAnalysisResults rnd = Inr r"
  shows "length (res_diseaseClassifications r) = 10"
  using generateMock_fields(5)[OF assms] by (simp add: length_DISEASE_TYPES)

lemma generateMock_top:
  assumes gen: "generateMockAnalysisResults rnd = Inr r"
    and rnd: "\<forall>i. 0 \<le> rnd i \<and> rnd i < 1"
  shows "diseaseName (hd (res_diseaseClassifications r)) = res_diseaseDetected r"
    and "\<forall>d \<in> set (res_diseaseClassifications r).
           (\<forall>e \<in> set (res_diseaseClassifications r). probability e \<le> probability d)
           \<longrightarrow> diseaseName d = res_diseaseDetected r"
proof -
  let ?di = "\<lfloor>rnd 0 * 10\<rfloor>"
  let ?c = "85 + rnd 1 * 12"
  let ?rows = "map (classificationRow rnd 2 ?di ?c) (enumerate 0 DISEASE_TYPES)"
  have rows: "res_diseaseClassifications r = sort_key (\<lambda>d. - probability d) ?rows"
    by (rule generateMock_fields(5)[OF gen])
  have name: "res_diseaseDetected r = DISEASE_TYPES ! nat ?di"
    by (rule generateMock_fields(3)[OF gen])
  have di: "0 \<le> ?di" "?di < 10" using generateMock_fields(1,2)[OF gen] by simp_all
  have r1: "0 \<le> rnd 1" "rnd 1 < 1" using rnd by auto
  have c: "85 \<le> ?c" "?c \<le> 97" using r1 by simp_all
  have c2: "85 \<le> round2 ?c" by (rule confidence_bounds(1)[OF r1])
  have top: "diseaseName d = DISEASE_TYPES ! nat ?di"
    if "d \<in> set ?rows" "\<forall>e \<in> set ?rows. probability e \<le> probability d" for d
    using classificationRows_top[OF rnd di c c2 that] .
  have ne: "?rows \<noteq> []" by (simp add: DISEASE_TYPES_def)
  show "diseaseName (hd (res_diseaseClassifications r)) = res_diseaseDetected r"
    unfolding rows name using top sort_key_hd_max[OF ne, of probability] by blast
  have set_eq: "set (res_diseaseClassifications r) = set ?rows"
    unfolding rows by (simp only: set_sort)
  show "\<forall>d \<in> set (res_diseaseClassifications r).
           (\<forall>e \<in> set (res_diseaseClassifications r). probability e \<le> probability d)
           \<longrightarrow> diseaseName d = res_diseaseDetected r"
    unfolding set_eq name using top by blast
qed

lemma generateMock_cellTypes:
  assumes "generateMockAnalysisResults rnd = Inr r"
  shows "map cellType (res_cellCounts r) = map fst CELL_TYPES"
  using generateMock_fields(6)[OF assms] by (simp only: cellCountRows_cellType)

lemma generateMock_cell_length:
  assumes "generateMockAnalysisResults rnd = Inr r"
  shows "length (res_cellCounts r) = 5"
proof -
  have "length (map cellType (res_cellCounts r)) = length (map fst CELL_TYPES)"
    by (simp only: generateMock_cellTypes[OF assms])
  then show ?thesis by (simp add: CELL_TYPES_def)
qed

lemma generateMock_cell_bounds:
  assumes gen: "generateMockAnalysisResults rnd = Inr r"
    and rnd: "\<forall>i. 0 \<le> rnd i \<and> rnd i < 1"
  shows "\<forall>cc \<in> set (res_cellCounts r).
           0 \<le> percentage cc \<and> percentage cc \<le> 100 \<and> 0 \<le> count cc \<and>
           0 \<le> abnormalCount cc \<and> abnormalCount cc \<le> count cc"
  unfolding generateMock_fields(6)[OF gen]
  by (rule cellCountRows_all) (simp add: cellCountRow_bounds[OF rnd])

lemma generateMock_zero:
  "generateMockAnalysisResults (\<lambda>_. 0) = Inr
     \<lparr> res_diseaseDetected = ''Normal'',
       res_confidenceScore = 85,
       res_rbcCount = 4500000,
       res_wbcCount = 4000,
       res_plateletCount = 150000,
       res_analysisNotes = ''Blood smear shows normal cellular morphology. RBC, WBC, and platelet counts within expected ranges. No abnormal cells or parasites detected.'',
       res_diseaseClassifications =
         [\<lparr> diseaseName = ''Normal'', probability = 85,
             cellAbnormalities = Some \<lparr> parasitesDetected = False, abnormalMorphology = False,
                                        cellSizeVariation = False \<rparr> \<rparr>,
          \<lparr> diseaseName = ''Malaria (Plasmodium)'', probability = 0, cellAbnormalities = None \<rparr>,
          \<lparr> diseaseName = ''Babesia'', probability = 0, cellAbnormalities = None \<rparr>,
          \<lparr> diseaseName = ''Leishmania'', probability = 0, cellAbnormalities = None \<rparr>,
          \<lparr> diseaseName = ''Acute Lymphoblastic Leukemia'', probability = 0, cellAbnormalities = None \<rparr>,
          \<lparr> diseaseName = ''Chronic Lymphocytic Leukemia'', probability = 0, cellAbnormalities = None \<rparr>,
          \<lparr> diseaseName = ''Acute Myeloid Leukemia'', probability = 0, cellAbnormalities = None \<rparr>,
          \<lparr> diseaseName = ''Chronic Myeloid Leukemia'', probability = 0, cellAbnormalities = None \<rparr>,
          \<lparr> diseaseName = ''Anemia'', probability = 0, cellAbnormalities = None \<rparr>,
          \<lparr> diseaseName = ''Thrombocytopenia'', probability = 0, cellAbnormalities = None \<rparr>],
       res_cellCounts =
         [\<lparr> cellType = ''Neutrophils'', count = 4000, percentage = 40, abnormalCount = 0 \<rparr>,
          \<lparr> cellType = ''Lymphocytes'', count = 2000, percentage = 20, abnormalCount = 0 \<rparr>,
          \<lparr> cellType = ''Monocytes'', count = 200, percentage = 2, abnormalCount = 0 \<rparr>,
          \<lparr> cellType = ''Eosinophils'', count = 100, percentage = 1, abnormalCount = 0 \<rparr>,
          \<lparr> cellType = ''Basophils'', count = 0, percentage = 0, abnormalCount = 0 \<rparr>] \<rparr>"
  by (simp add: generateMockAnalysisResults_def DISEASE_TYPES_def CELL_TYPES_def cellCountRow_def
      str_includes_def round2_def Math_round_def Let_def enumerate_eq_zip classificationRow_def
      notesFor_def sublist_code)

subsection \<open>Claims about the generator\<close>

text \<open>
  C5. For every value of the random source (every draw in \<open>[0, 1)\<close>), the generator
  returns a result whose \<open>diseaseDetected\<close> is one of the ten labels of \<open>DISEASE_TYPES\<close>,
  whose \<open>confidenceScore\<close> lies in \<open>[85, 97]\<close>, and in whose classification table the row
  with the highest probability carries the detected disease: the first row of the table
  (sorted by descending probability) does, and so does every row whose probability no
  other row exceeds.
\<close>

theorem C5_generator_label_confidence_top_row:
  assumes "\<forall>i. 0 \<le> rnd i \<and> rnd i < 1"
  shows "\<exists>r. generateMockAnalysisResults rnd = Inr r \<and>
           res_diseaseDetected r \<in> set DISEASE_TYPES \<and>
           85 \<le> res_confidenceScore r \<and> res_confidenceScore r \<le> 97 \<and>
           res_diseaseClassifications r \<noteq> [] \<and>
           diseaseName (hd (res_diseaseClassifications r)) = res_diseaseDetected r \<and>
           (\<forall>d \<in> set (res_diseaseClassifications r).
              (\<forall>e \<in> set (res_diseaseClassifications r). probability e \<le> probability d)
              \<longrightarrow> diseaseName d = res_diseaseDetected r)"
proof -
  have r0: "0 \<le> rnd 0" "rnd 0 < 1" and r1: "0 \<le> rnd 1" "rnd 1 < 1"
    using assms by auto
  obtain r where gen: "generateMockAnalysisResults rnd = Inr r"
    using generateMock_total[of rnd, OF r0] by blast
  have "length (res_diseaseClassifications r) = 10"
    by (rule generateMock_classification_length[OF gen])
  then have ne: "res_diseaseClassifications r \<noteq> []" by auto
  show ?thesis
    using gen generateMock_disease[OF gen] generateMock_confidence[OF gen r1] ne
      generateMock_top[OF gen assms]
    by blast
qed

text \<open>The theorem at the random source that always draws 0.\<close>

theorem C5_generator_witness:
  "\<exists>r. generateMockAnalysisResults (\<lambda>_. 0) = Inr r \<and>
       res_diseaseDetected r \<in> set DISEASE_TYPES \<and>
       85 \<le> res_confidenceScore r \<and> res_confidenceScore r \<le> 97 \<and>
       diseaseName (hd (res_diseaseClassifications r)) = res_diseaseDetected r"
proof -
  have "\<forall>i::nat. (0::real) \<le> (\<lambda>_. 0) i \<and> (\<lambda>_. 0::real) i < 1" by simp
  from C5_generator_label_confidence_top_row[OF this] show ?thesis by blast
qed



section \<open>Properties of the controller\<close>

subsection \<open>The sample run\<close>

lemma sample_create:
  "createAnalysis noFaults 1 (Some ''img-1'') emptyDb =
     (Json201 0 sampleDoc,
      emptyDb\<lparr> analysisColl := (\<lambda>_. None)(0 \<mapsto> sampleDoc), nextId := 1 \<rparr>)"
  by (simp add: createAnalysis_def noFaults_def emptyDb_def sampleDoc_def Let_def)

lemma sample_process:
  "processAnalysis noFaults 0 1
     (emptyDb\<lparr> analysisColl := (\<lambda>_. None)(0 \<mapsto> sampleDoc), nextId := 1 \<rparr>) =
     (Json200_started, sampleDb, Some sampleTask)"
  by (simp add: processAnalysis_def noFaults_def emptyDb_def sampleDoc_def sampleDb_def
      sampleTask_def Let_def)

subsection \<open>The callback\<close>

lemma obtainResults_fallback:
  "runAIInference out = None \<Longrightarrow> obtainResults out rnd = generateMockAnalysisResults rnd"
  by (simp add: obtainResults_def)

lemma obtainResults_real:
  "obtainResults (Parsed True r) rnd = Inr r"
  by (simp add: obtainResults_def)

lemma sample_fallback: "obtainResults ExecFailed (\<lambda>_. 0) = generateMockAnalysisResults (\<lambda>_. 0)"
  by (simp add: obtainResults_def)

lemma completion_success:
  assumes "obtainResults out rnd = Inr r"
    and "\<not> flt Save_completed" "\<not> flt DiseaseClassification_insertMany"
    and "\<not> flt CellCount_insertMany" "\<not> flt Notification_create_success"
  shows "completion flt out rnd now t d =
     d\<lparr> analysisColl := (analysisColl d)(t_id t \<mapsto> assignResults (t_analysis t) r now),
        classificationColl := classificationColl d @
           map (Pair (t_id t)) (res_diseaseClassifications r),
        cellCountColl := cellCountColl d @ map (Pair (t_id t)) (res_cellCounts r),
        notificationColl := notificationColl d @ [successNotification t r] \<rparr>"
  using assms by (simp add: completion_def Let_def)

lemma completionCatch_handled:
  assumes "\<not> flt Save_failed" "\<not> flt Notification_create_error"
  shows "completionCatch flt t doc d =
     d\<lparr> analysisColl := (analysisColl d)(t_id t \<mapsto> doc\<lparr> status := Failed \<rparr>),
        notificationColl := notificationColl d @ [errorNotification t] \<rparr>"
  using assms by (simp add: completionCatch_def Let_def)

lemma completionCatch_frame:
  "nextId (completionCatch flt t doc d) = nextId d"
  "i \<noteq> t_id t \<Longrightarrow> analysisColl (completionCatch flt t doc d) i = analysisColl d i"
  "statusOf (completionCatch flt t doc d) (t_id t) = statusOf d (t_id t) \<or>
   statusOf (completionCatch flt t doc d) (t_id t) = Some Failed"
  by (simp_all add: completionCatch_def Let_def statusOf_def)

lemma completion_nextId: "nextId (completion flt out rnd now t d) = nextId d"
  by (simp add: completion_def Let_def completionCatch_frame split: sum.splits)

lemma completion_other:
  "i \<noteq> t_id t \<Longrightarrow> analysisColl (completion flt out rnd now t d) i = analysisColl d i"
  by (simp add: completion_def Let_def completionCatch_frame split: sum.splits)

lemma completion_status:
  "statusOf (completion flt out rnd now t d) (t_id t) = statusOf d (t_id t) \<or>
   statusOf (completion flt out rnd now t d) (t_id t) = Some Completed \<or>
   statusOf (completion flt out rnd now t d) (t_id t) = Some Failed"
  by (auto simp: completion_def Let_def completionCatch_def statusOf_def assignResults_def
      split: sum.splits)

lemma filter_own_rows: "filter (\<lambda>r. fst r = i) (map (Pair i) xs) = map (Pair i) xs"
  by (induction xs) auto

lemma classificationsOf_completion_success:
  assumes "obtainResults out rnd = Inr r"
    and "\<not> flt Save_completed" "\<not> flt DiseaseClassification_insertMany"
    and "\<not> flt CellCount_insertMany" "\<not> flt Notification_create_success"
  shows "classificationsOf (completion flt out rnd now t d) (t_id t)
           = classificationsOf d (t_id t) @ res_diseaseClassifications r"
    and "cellCountsOf (completion flt out rnd now t d) (t_id t)
           = cellCountsOf d (t_id t) @ res_cellCounts r"
    and "statusOf (completion flt out rnd now t d) (t_id t) = Some Completed"
  unfolding completion_success[OF assms]
  by (simp_all add: classificationsOf_def cellCountsOf_def statusOf_def filter_own_rows comp_def
      assignResults_def)

lemma getAnalysisById_details:
  assumes "analysisColl d ident = Some a" "userId a = u"
    and "\<not> flt Analysis_findById" "\<not> flt DiseaseClassification_find" "\<not> flt CellCount_find"
  shows "\<exists>dcs ccs. getAnalysisById flt ident u d = (Json200_details a dcs ccs, d) \<and>
           mset (map snd dcs) = mset (classificationsOf d ident) \<and>
           mset (map snd ccs) = mset (cellCountsOf d ident)"
  using assms
  by (simp add: getAnalysisById_def classificationsOf_def cellCountsOf_def)

subsection \<open>The sample run, continued\<close>

lemma sample_generated:
  obtains r where "generateMockAnalysisResults (\<lambda>_. 0) = Inr r"
    and "res_diseaseDetected r = ''Normal''"
    and "res_confidenceScore r = 85"
    and "length (res_diseaseClassifications r) = 10"
    and "length (res_cellCounts r) = 5"
proof -
  obtain r where gen: "generateMockAnalysisResults (\<lambda>_. 0) = Inr r"
    using generateMock_zero by blast
  have "res_diseaseDetected r = ''Normal''" "res_confidenceScore r = 85"
    using gen unfolding generateMock_zero by auto
  then show ?thesis
    using that gen generateMock_classification_length[OF gen] generateMock_cell_length[OF gen]
    by blast
qed

lemma sample_completed:
  obtains r where "generateMockAnalysisResults (\<lambda>_. 0) = Inr r"
    and "completion noFaults ExecFailed (\<lambda>_. 0) now sampleTask sampleDb =
      sampleDb\<lparr> analysisColl := (analysisColl sampleDb)(0 \<mapsto> assignResults (t_analysis sampleTask) r now),
        classificationColl := map (Pair 0) (res_diseaseClassifications r),
        cellCountColl := map (Pair 0) (res_cellCounts r),
        notificationColl := [successNotification sampleTask r] \<rparr>"
proof -
  obtain r where gen: "generateMockAnalysisResults (\<lambda>_. 0) = Inr r"
    using generateMock_zero by blast
  have "obtainResults ExecFailed (\<lambda>_. 0) = Inr r" using gen by (simp add: sample_fallback)
  from completion_success[OF this, of noFaults now sampleTask sampleDb]
  have "completion noFaults ExecFailed (\<lambda>_. 0) now sampleTask sampleDb =
      sampleDb\<lparr> analysisColl := (analysisColl sampleDb)(0 \<mapsto> assignResults (t_analysis sampleTask) r now),
        classificationColl := map (Pair 0) (res_diseaseClassifications r),
        cellCountColl := map (Pair 0) (res_cellCounts r),
        notificationColl := [successNotification sampleTask r] \<rparr>"
    by (simp add: noFaults_def sampleTask_def sampleDb_def)
  with gen that show ?thesis by blast
qed

lemma sampleRestarted_eq:
  obtains r where "generateMockAnalysisResults (\<lambda>_. 0) = Inr r"
    and "store sampleCompleted =
      sampleDb\<lparr> analysisColl := (analysisColl sampleDb)(0 \<mapsto> assignResults (t_analysis sampleTask) r 0),
        classificationColl := map (Pair 0) (res_diseaseClassifications r),
        cellCountColl := map (Pair 0) (res_cellCounts r),
        notificationColl := [successNotification sampleTask r] \<rparr>"
    and "processAnalysis noFaults 0 1 (store sampleCompleted) =
      (Json200_started,
       sampleDb\<lparr> analysisColl := (analysisColl sampleDb)
            (0 \<mapsto> (assignResults (t_analysis sampleTask) r 0)\<lparr> status := Processing \<rparr>),
        classificationColl := map (Pair 0) (res_diseaseClassifications r),
        cellCountColl := map (Pair 0) (res_cellCounts r),
        notificationColl := [successNotification sampleTask r] \<rparr>,
       Some \<lparr> t_id = 0,
              t_analysis = (assignResults (t_analysis sampleTask) r 0)\<lparr> status := Processing \<rparr>,
              t_user = 1 \<rparr>)"
proof -
  obtain r where gen: "generateMockAnalysisResults (\<lambda>_. 0) = Inr r"
    and d: "completion noFaults ExecFailed (\<lambda>_. 0) 0 sampleTask sampleDb =
      sampleDb\<lparr> analysisColl := (analysisColl sampleDb)(0 \<mapsto> assignResults (t_analysis sampleTask) r 0),
        classificationColl := map (Pair 0) (res_diseaseClassifications r),
        cellCountColl := map (Pair 0) (res_cellCounts r),
        notificationColl := [successNotification sampleTask r] \<rparr>"
    by (rule sample_completed)
  have st: "store sampleCompleted =
      sampleDb\<lparr> analysisColl := (analysisColl sampleDb)(0 \<mapsto> assignResults (t_analysis sampleTask) r 0),
        classificationColl := map (Pair 0) (res_diseaseClassifications r),
        cellCountColl := map (Pair 0) (res_cellCounts r),
        notificationColl := [successNotification sampleTask r] \<rparr>"
    by (simp add: sampleCompleted_def d)
  have "processAnalysis noFaults 0 1 (store sampleCompleted) =
      (Json200_started,
       sampleDb\<lparr> analysisColl := (analysisColl sampleDb)
            (0 \<mapsto> (assignResults (t_analysis sampleTask) r 0)\<lparr> status := Processing \<rparr>),
        classificationColl := map (Pair 0) (res_diseaseClassifications r),
        cellCountColl := map (Pair 0) (res_cellCounts r),
        notificationColl := [successNotification sampleTask r] \<rparr>,
       Some \<lparr> t_id = 0,
              t_analysis = (assignResults (t_analysis sampleTask) r 0)\<lparr> status := Processing \<rparr>,
              t_user = 1 \<rparr>)"
    unfolding st
    by (simp add: processAnalysis_def noFaults_def Let_def assignResults_def sampleTask_def
        sampleDoc_def sampleDb_def)
  with gen st that show ?thesis by blast
qed

subsection \<open>Numeric ranges\<close>

lemma boundsOk_completionCatch:
  assumes "boundsOk d" and "\<forall>c. confidenceScore doc = Some c \<longrightarrow> 0 \<le> c \<and> c \<le> 100"
  shows "boundsOk (completionCatch flt t doc d)"
  using assms by (auto simp: completionCatch_def boundsOk_def Let_def)

lemma boundsOk_completion:
  assumes ok: "boundsOk d"
    and res: "obtainResults out rnd = Inr r"
    and conf: "0 \<le> res_confidenceScore r" "res_confidenceScore r \<le> 100"
    and cells: "\<forall>cc \<in> set (res_cellCounts r).
                  0 \<le> percentage cc \<and> percentage cc \<le> 100 \<and> abnormalCount cc \<le> count cc"
  shows "boundsOk (completion flt out rnd now t d)"
proof -
  let ?doc = "assignResults (t_analysis t) r now"
  let ?d1 = "d\<lparr> analysisColl := (analysisColl d)(t_id t \<mapsto> ?doc) \<rparr>"
  let ?d2 = "?d1\<lparr> classificationColl := classificationColl ?d1 @
                 map (Pair (t_id t)) (res_diseaseClassifications r) \<rparr>"
  let ?d3 = "?d2\<lparr> cellCountColl := cellCountColl ?d2 @ map (Pair (t_id t)) (res_cellCounts r) \<rparr>"
  have doc: "\<forall>c. confidenceScore ?doc = Some c \<longrightarrow> 0 \<le> c \<and> c \<le> 100"
    using conf by (simp add: assignResults_def)
  have b1: "boundsOk ?d1" using ok doc by (auto simp: boundsOk_def)
  have b2: "boundsOk ?d2" using b1 by (auto simp: boundsOk_def)
  have b3: "boundsOk ?d3" using b2 cells by (auto simp: boundsOk_def)
  have b4: "boundsOk (?d3\<lparr> notificationColl := notificationColl ?d3 @ [n] \<rparr>)" for n
    using b3 by (auto simp: boundsOk_def)
  show ?thesis
    unfolding completion_def res
    using boundsOk_completionCatch[OF ok doc] boundsOk_completionCatch[OF b1 doc]
      boundsOk_completionCatch[OF b2 doc] boundsOk_completionCatch[OF b3 doc] b4
    by (simp add: Let_def)
qed

lemma boundsOk_handlers:
  assumes "boundsOk d"
  shows "boundsOk (snd (createAnalysis flt u img d))"
    and "boundsOk (fst (snd (processAnalysis flt i u d)))"
    and "boundsOk (snd (getAnalysisById flt i u d))"
    and "boundsOk (snd (deleteAnalysis flt i u d))"
  using assms
  by (auto simp: createAnalysis_def processAnalysis_def getAnalysisById_def deleteAnalysis_def
      boundsOk_def Let_def split: option.splits)

subsection \<open>The invariant of the running server\<close>

lemma timersOk_initial: "timersOk initial"
  by (simp add: timersOk_def initial_def emptyDb_def)

lemma timersOk_step:
  assumes "step s s'" and inv: "timersOk s"
  shows "timersOk s'"
  using assms(1)
proof cases
  case (step_create flt user imageUrlOpt resp d')
  then show ?thesis
    using inv
    by (auto simp: createAnalysis_def timersOk_def statusOf_def Let_def
        split: option.splits if_splits)
next
  case (step_process flt ident user resp d' scheduled)
  then show ?thesis
    using inv
    by (auto simp: processAnalysis_def timersOk_def statusOf_def Let_def not_le[symmetric]
        split: option.splits if_splits)
next
  case (step_callback t flt out rnd now)
  have "t_id t < nextId (store s)" using inv step_callback(2) by (auto simp: timersOk_def)
  then have a: "\<forall>i. nextId (store s) \<le> i \<longrightarrow>
      analysisColl (completion flt out rnd now t (store s)) i = None"
    using inv by (auto simp: timersOk_def completion_other)
  have b: "statusOf (completion flt out rnd now t (store s)) (t_id t') \<noteq> Some Pending"
    if "t' \<in> set (timers s)" for t'
  proof (cases "t_id t' = t_id t")
    case True
    have "statusOf (store s) (t_id t) \<noteq> Some Pending"
      using inv step_callback(2) by (auto simp: timersOk_def)
    then show ?thesis
      using completion_status[of flt out rnd now t "store s"] True by auto
  next
    case False
    have "statusOf (store s) (t_id t') \<noteq> Some Pending"
      using inv that by (auto simp: timersOk_def)
    then show ?thesis using False by (simp add: statusOf_def completion_other)
  qed
  have c: "t_id t' < nextId (store s)" if "t' \<in> set (timers s)" for t'
    using inv that by (auto simp: timersOk_def)
  show ?thesis
    unfolding step_callback(1) timersOk_def
    using a b c by (auto simp: completion_nextId dest: notin_set_remove1 set_remove1_subset[THEN subsetD])
next
  case (step_get flt ident user resp d')
  then have "d' = store s" by (auto simp: getAnalysisById_def split: option.splits if_splits)
  then show ?thesis using inv step_get by (simp add: timersOk_def)
next
  case (step_delete flt ident user resp d')
  then show ?thesis
    using inv
    by (auto simp: deleteAnalysis_def timersOk_def statusOf_def Let_def
        split: option.splits if_splits)
qed

lemma reachable_timersOk: "reachable s \<Longrightarrow> timersOk s"
  by (induction rule: reachable.induct) (auto intro: timersOk_initial timersOk_step)

lemma reachable_sampleStarted: "reachable sampleStarted"
proof -
  let ?s1 = "initial\<lparr> store := emptyDb\<lparr> analysisColl := (\<lambda>_. None)(0 \<mapsto> sampleDoc), nextId := 1 \<rparr> \<rparr>"
  have "createAnalysis noFaults 1 (Some ''img-1'') (store initial) =
     (Json201 0 sampleDoc, emptyDb\<lparr> analysisColl := (\<lambda>_. None)(0 \<mapsto> sampleDoc), nextId := 1 \<rparr>)"
    using sample_create by (simp add: initial_def)
  then have "step initial ?s1" by (rule step_create)
  then have r1: "reachable ?s1" using reachable_initial by (rule reachable_step[rotated])
  have "processAnalysis noFaults 0 1 (store ?s1) = (Json200_started, sampleDb, Some sampleTask)"
    using sample_process by simp
  then have "step ?s1 \<lparr> store = sampleDb,
       timers = timers ?s1 @ (case Some sampleTask of None \<Rightarrow> [] | Some t \<Rightarrow> [t]) \<rparr>"
    by (rule step_process)
  then have "step ?s1 sampleStarted" by (simp add: sampleStarted_def initial_def)
  with r1 show ?thesis by (rule reachable_step)
qed

lemma step_sampleCompleted: "step sampleStarted sampleCompleted"
proof -
  have "sampleTask \<in> set (timers sampleStarted)" by (simp add: sampleStarted_def)
  then have "step sampleStarted
     \<lparr> store = completion noFaults ExecFailed (\<lambda>_. 0) 0 sampleTask (store sampleStarted),
       timers = remove1 sampleTask (timers sampleStarted) \<rparr>"
    by (rule step_callback)
  then show ?thesis by (simp add: sampleStarted_def sampleCompleted_def)
qed

lemma reachable_sampleCompleted: "reachable sampleCompleted"
  using reachable_sampleStarted step_sampleCompleted by (rule reachable_step)

lemma step_sampleRestarted: "step sampleCompleted sampleRestarted"
proof -
  obtain resp d' scheduled where
    p: "processAnalysis noFaults 0 1 (store sampleCompleted) = (resp, d', scheduled)"
    by (cases "processAnalysis noFaults 0 1 (store sampleCompleted)")
  then have "step sampleCompleted \<lparr> store = d',
       timers = timers sampleCompleted @ (case scheduled of None \<Rightarrow> [] | Some t \<Rightarrow> [t]) \<rparr>"
    by (rule step_process)
  then show ?thesis unfolding sampleRestarted_def p by simp
qed

lemma status_sampleCompleted: "statusOf (store sampleCompleted) 0 = Some Completed"
proof -
  obtain r where st: "store sampleCompleted =
      sampleDb\<lparr> analysisColl := (analysisColl sampleDb)(0 \<mapsto> assignResults (t_analysis sampleTask) r 0),
        classificationColl := map (Pair 0) (res_diseaseClassifications r),
        cellCountColl := map (Pair 0) (res_cellCounts r),
        notificationColl := [successNotification sampleTask r] \<rparr>"
    using sampleRestarted_eq by blast
  show ?thesis unfolding st by (simp add: statusOf_def assignResults_def)
qed

lemma status_sampleRestarted: "statusOf (store sampleRestarted) 0 = Some Processing"
proof -
  obtain r where pr: "processAnalysis noFaults 0 1 (store sampleCompleted) =
      (Json200_started,
       sampleDb\<lparr> analysisColl := (analysisColl sampleDb)
            (0 \<mapsto> (assignResults (t_analysis sampleTask) r 0)\<lparr> status := Processing \<rparr>),
        classificationColl := map (Pair 0) (res_diseaseClassifications r),
        cellCountColl := map (Pair 0) (res_cellCounts r),
        notificationColl := [successNotification sampleTask r] \<rparr>,
       Some \<lparr> t_id = 0,
              t_analysis = (assignResults (t_analysis sampleTask) r 0)\<lparr> status := Processing \<rparr>,
              t_user = 1 \<rparr>)"
    using sampleRestarted_eq by blast
  show ?thesis unfolding sampleRestarted_def pr by (simp add: statusOf_def)
qed

section \<open>Claims about the controller\<close>

subsection \<open>C1: a persistence failure in the completion sequence\<close>

text \<open>
  C1, as stated, fails. In the sample run let the insert of the cell-count rows, one of
  the two writes of detail rows, reject. The Analysis ends
  with status \<open>Failed\<close>, but its \<open>diseaseDetected\<close> is populated and its ten
  classification rows, inserted before the failing call, are still retrieved: the
  \<^verbatim>\<open>catch\<close> block neither clears a field nor removes a row.
\<close>

theorem C1_counterexample_detail_write_fails:
  "statusOf (completion (\<lambda>c. c = CellCount_insertMany) ExecFailed (\<lambda>_. 0) 0 sampleTask sampleDb) 0
     = Some Failed \<and>
   map_option diseaseDetected
     (analysisColl (completion (\<lambda>c. c = CellCount_insertMany) ExecFailed (\<lambda>_. 0) 0 sampleTask sampleDb) 0)
     = Some (Some ''Normal'') \<and>
   length (classificationsOf
     (completion (\<lambda>c. c = CellCount_insertMany) ExecFailed (\<lambda>_. 0) 0 sampleTask sampleDb) 0) = 10"
proof -
  obtain r where gen: "generateMockAnalysisResults (\<lambda>_. 0) = Inr r"
    and r: "res_diseaseDetected r = ''Normal''" "length (res_diseaseClassifications r) = 10"
    using sample_generated by blast
  have res: "obtainResults ExecFailed (\<lambda>_. 0) = Inr r" using gen by (simp add: sample_fallback)
  show ?thesis
    using r
    by (simp add: completion_def res completionCatch_def Let_def statusOf_def
        classificationsOf_def assignResults_def sampleTask_def sampleDb_def comp_def)
qed

text \<open>
  C1, amended. If a database write of the completion sequence rejects (the save of the
  Analysis, one of the two detail inserts, or the success notification) and the two writes
  of the failure handler succeed, the Analysis ends with status \<open>Failed\<close> and the run
  emits exactly one notification, of type \<open>Error\<close>. The result fields assigned before the
  failure stay populated on the failed Analysis, and the detail rows inserted before the
  failing write stay stored: the run adds no classification row only when the failure is
  at the save of the Analysis or at the classification insert, and no cell-count row
  unless the failure is at the success notification.
\<close>

theorem C1_failure_ends_failed_with_one_error_notification:
  assumes res: "obtainResults out rnd = Inr r"
    and thrown: "flt Save_completed \<or> flt DiseaseClassification_insertMany \<or>
                 flt CellCount_insertMany \<or> flt Notification_create_success"
    and handled: "\<not> flt Save_failed" "\<not> flt Notification_create_error"
  shows "analysisColl (completion flt out rnd now t d) (t_id t)
           = Some ((assignResults (t_analysis t) r now)\<lparr> status := Failed \<rparr>) \<and>
         notificationColl (completion flt out rnd now t d)
           = notificationColl d @ [errorNotification t] \<and>
         classificationColl (completion flt out rnd now t d)
           = classificationColl d @
             (if flt Save_completed \<or> flt DiseaseClassification_insertMany then []
              else map (Pair (t_id t)) (res_diseaseClassifications r)) \<and>
         cellCountColl (completion flt out rnd now t d)
           = cellCountColl d @
             (if flt Save_completed \<or> flt DiseaseClassification_insertMany \<or>
                 flt CellCount_insertMany then []
              else map (Pair (t_id t)) (res_cellCounts r))"
  using thrown
  by (auto simp: completion_def res completionCatch_handled[OF handled] Let_def)

text \<open>
  The amended claim in the sample run, with the classification insert rejecting: status
  \<open>Failed\<close>, one notification of type \<open>Error\<close>, no detail row.
\<close>

theorem C1_failure_witness:
  "statusOf (completion (\<lambda>c. c = DiseaseClassification_insertMany) ExecFailed (\<lambda>_. 0) 0
      sampleTask sampleDb) 0 = Some Failed \<and>
   map n_type (notificationColl (completion (\<lambda>c. c = DiseaseClassification_insertMany)
      ExecFailed (\<lambda>_. 0) 0 sampleTask sampleDb)) = [Error] \<and>
   classificationColl (completion (\<lambda>c. c = DiseaseClassification_insertMany)
      ExecFailed (\<lambda>_. 0) 0 sampleTask sampleDb) = [] \<and>
   cellCountColl (completion (\<lambda>c. c = DiseaseClassification_insertMany)
      ExecFailed (\<lambda>_. 0) 0 sampleTask sampleDb) = []"
proof -
  obtain r where gen: "generateMockAnalysisResults (\<lambda>_. 0) = Inr r"
    using generateMock_zero by blast
  have res: "obtainResults ExecFailed (\<lambda>_. 0) = Inr r" using gen by (simp add: sample_fallback)
  from C1_failure_ends_failed_with_one_error_notification[OF res,
      of "\<lambda>c. c = DiseaseClassification_insertMany" 0 sampleTask sampleDb]
  show ?thesis
    by (simp add: statusOf_def sampleTask_def sampleDb_def errorNotification_def)
qed

subsection \<open>C2: status transitions\<close>

text \<open>
  C2, as stated, fails. The server that has completed the sample Analysis is reachable,
  and one more \<^verbatim>\<open>processAnalysis\<close> by the owner is a step that moves the stored status
  from \<open>Completed\<close> back to \<open>Processing\<close>: the handler sets \<^verbatim>\<open>processing\<close> without
  looking at the current status.
\<close>

theorem C2_counterexample_completed_back_to_processing:
  "reachable sampleCompleted \<and> step sampleCompleted sampleRestarted \<and>
   statusOf (store sampleCompleted) 0 = Some Completed \<and>
   statusOf (store sampleRestarted) 0 = Some Processing"
  using reachable_sampleCompleted step_sampleRestarted status_sampleCompleted
    status_sampleRestarted by blast

text \<open>
  C2, amended. In every step of a reachable server, the status of an Analysis stored
  before and after the step either does not change, or becomes \<open>Processing\<close> (by
  \<^verbatim>\<open>processAnalysis\<close>, from any status), or becomes \<open>Completed\<close> or \<open>Failed\<close> from a
  status other than \<open>Pending\<close> (by a callback). So \<open>Pending\<close> is left only towards
  \<open>Processing\<close> and is never entered again, while \<open>Completed\<close> and \<open>Failed\<close> can be
  left towards \<open>Processing\<close> and can be overwritten by a later callback.
\<close>

theorem C2_status_transitions:
  assumes "reachable s" and "step s s'"
    and "statusOf (store s) ident = Some x" and "statusOf (store s') ident = Some y"
  shows "x = y \<or> y = Processing \<or> (x \<noteq> Pending \<and> (y = Completed \<or> y = Failed))"
  using assms(2)
proof cases
  case (step_create flt user imageUrlOpt resp d')
  have "analysisColl (store s) (nextId (store s)) = None"
    using reachable_timersOk[OF assms(1)] by (simp add: timersOk_def)
  then show ?thesis
    using step_create assms(3,4)
    by (auto simp: createAnalysis_def statusOf_def Let_def split: option.splits if_splits)
next
  case (step_process flt ident' user resp d' scheduled)
  then show ?thesis
    using assms(3,4)
    by (auto simp: processAnalysis_def statusOf_def Let_def split: option.splits if_splits)
next
  case (step_callback t flt out rnd now)
  show ?thesis
  proof (cases "ident = t_id t")
    case True
    have "statusOf (store s) (t_id t) \<noteq> Some Pending"
      using reachable_timersOk[OF assms(1)] step_callback(2) by (auto simp: timersOk_def)
    then have "x \<noteq> Pending" using assms(3) True by auto
    then show ?thesis
      using completion_status[of flt out rnd now t "store s"] assms(3,4) True
      unfolding step_callback(1) by auto
  next
    case False
    then show ?thesis
      using assms(3,4) unfolding step_callback(1) by (auto simp: statusOf_def completion_other)
  qed
next
  case (step_get flt ident' user resp d')
  then have "d' = store s" by (auto simp: getAnalysisById_def split: option.splits if_splits)
  then show ?thesis using assms(3,4) step_get by simp
next
  case (step_delete flt ident' user resp d')
  then show ?thesis
    using assms(3,4)
    by (auto simp: deleteAnalysis_def statusOf_def Let_def split: option.splits if_splits)
qed

text \<open>
  The amended claim at the step of the sample run in which the callback completes the
  Analysis: from \<open>Processing\<close> to \<open>Completed\<close>.
\<close>

theorem C2_status_transitions_witness:
  "reachable sampleStarted \<and> step sampleStarted sampleCompleted \<and>
   statusOf (store sampleStarted) 0 = Some Processing \<and>
   statusOf (store sampleCompleted) 0 = Some Completed \<and>
   Processing \<noteq> Pending"
proof -
  have x: "statusOf (store sampleStarted) 0 = Some Processing"
    by (simp add: sampleStarted_def sampleDb_def statusOf_def)
  from C2_status_transitions[OF reachable_sampleStarted step_sampleCompleted x
      status_sampleCompleted]
  have "Processing \<noteq> Pending" by simp
  with reachable_sampleStarted step_sampleCompleted x status_sampleCompleted
  show ?thesis by blast
qed

subsection \<open>C3: the fallback is invisible in the final state\<close>

text \<open>
  C3. Let \<^verbatim>\<open>processAnalysis\<close> have started the processing of an Analysis, let the
  inference fail (\<^verbatim>\<open>runAIInference\<close> returns \<^verbatim>\<open>null\<close>: the process did not run, its
  output did not parse, or it reported no success), and let none of the four database
  writes of the callback reject. Then, whatever the callback finds in the database, it
  leaves the Analysis with status \<open>Completed\<close> and with the six result fields set to the
  values of the generated result.
\<close>

theorem C3_fallback_reaches_completed:
  assumes start: "processAnalysis flt0 ident user d0 = (Json200_started, d1, Some t)"
    and fail: "runAIInference out = None"
    and rnd: "\<forall>i. 0 \<le> rnd i \<and> rnd i < 1"
    and ok: "\<not> flt Save_completed" "\<not> flt DiseaseClassification_insertMany"
      "\<not> flt CellCount_insertMany" "\<not> flt Notification_create_success"
  shows "\<exists>r a. generateMockAnalysisResults rnd = Inr r \<and>
           analysisColl (completion flt out rnd now t d) ident = Some a \<and>
           status a = Completed \<and>
           diseaseDetected a = Some (res_diseaseDetected r) \<and>
           confidenceScore a = Some (res_confidenceScore r) \<and>
           rbcCount a = Some (res_rbcCount r) \<and>
           wbcCount a = Some (res_wbcCount r) \<and>
           plateletCount a = Some (res_plateletCount r) \<and>
           analysisNotes a = Some (res_analysisNotes r)"
proof -
  have r0: "0 \<le> rnd 0" "rnd 0 < 1" using rnd by auto
  obtain r where gen: "generateMockAnalysisResults rnd = Inr r"
    using generateMock_total[of rnd, OF r0] by blast
  have res: "obtainResults out rnd = Inr r" using gen fail by (simp add: obtainResults_fallback)
  have tid: "t_id t = ident"
    using start by (auto simp: processAnalysis_def Let_def split: if_splits option.splits)
  have "analysisColl (completion flt out rnd now t d) ident
          = Some (assignResults (t_analysis t) r now)"
    unfolding completion_success[OF res ok] by (simp add: tid)
  then show ?thesis using gen by (simp add: assignResults_def)
qed

text \<open>
  The theorem in the sample run: the stored Analysis is completed with the values that
  the generator yields when every draw is 0.
\<close>

theorem C3_fallback_witness:
  "\<exists>a. analysisColl (completion noFaults ExecFailed (\<lambda>_. 0) 0 sampleTask sampleDb) 0 = Some a \<and>
       status a = Completed \<and> diseaseDetected a = Some ''Normal'' \<and>
       confidenceScore a = Some 85 \<and> rbcCount a = Some 4500000 \<and>
       wbcCount a = Some 4000 \<and> plateletCount a = Some 150000"
proof -
  have "\<forall>i::nat. (0::real) \<le> (\<lambda>_. 0) i \<and> (\<lambda>_. 0::real) i < 1" by simp
  from C3_fallback_reaches_completed[OF sample_process _ this, of ExecFailed noFaults 0 sampleDb]
  show ?thesis unfolding generateMock_zero by (auto simp: noFaults_def)
qed

subsection \<open>C4: the detail rows of a completed Analysis\<close>

text \<open>
  C4, as stated, fails. Start the processing of the completed sample Analysis a second
  time and let its callback run: \<^verbatim>\<open>getAnalysisById\<close> then returns a completed Analysis
  with twenty classification rows and ten cell-count rows. Nothing keeps
  \<^verbatim>\<open>processAnalysis\<close> from running again on a completed Analysis, and each callback
  inserts its rows.
\<close>

theorem C4_counterexample_processed_twice:
  "(case fst (getAnalysisById noFaults 0 1 sampleReprocessed) of
      Json200_details a dcs ccs \<Rightarrow> status a = Completed \<and> length dcs = 20 \<and> length ccs = 10
    | _ \<Rightarrow> False)"
proof -
  obtain r where gen: "generateMockAnalysisResults (\<lambda>_. 0) = Inr r"
    and st: "store sampleCompleted =
      sampleDb\<lparr> analysisColl := (analysisColl sampleDb)(0 \<mapsto> assignResults (t_analysis sampleTask) r 0),
        classificationColl := map (Pair 0) (res_diseaseClassifications r),
        cellCountColl := map (Pair 0) (res_cellCounts r),
        notificationColl := [successNotification sampleTask r] \<rparr>"
    and pr: "processAnalysis noFaults 0 1 (store sampleCompleted) =
      (Json200_started,
       sampleDb\<lparr> analysisColl := (analysisColl sampleDb)
            (0 \<mapsto> (assignResults (t_analysis sampleTask) r 0)\<lparr> status := Processing \<rparr>),
        classificationColl := map (Pair 0) (res_diseaseClassifications r),
        cellCountColl := map (Pair 0) (res_cellCounts r),
        notificationColl := [successNotification sampleTask r] \<rparr>,
       Some \<lparr> t_id = 0,
              t_analysis = (assignResults (t_analysis sampleTask) r 0)\<lparr> status := Processing \<rparr>,
              t_user = 1 \<rparr>)"
    by (rule sampleRestarted_eq)
  have res: "obtainResults ExecFailed (\<lambda>_. 0) = Inr r" using gen by (simp add: sample_fallback)
  have nf: "\<not> noFaults c" for c by (simp add: noFaults_def)
  have len: "length (res_diseaseClassifications r) = 10" "length (res_cellCounts r) = 5"
    using generateMock_classification_length[OF gen] generateMock_cell_length[OF gen] by auto
  show ?thesis
    unfolding sampleReprocessed_def sampleRestarted_def pr
    using len
    by (simp add: sampleCompleted_def completion_success[OF res nf nf nf nf]
        getAnalysisById_def noFaults_def assignResults_def sampleTask_def sampleDoc_def
        sampleDb_def filter_own_rows)
qed

text \<open>
  C4, amended. After a callback that took the fallback path and met no rejected write,
  for an Analysis that had no detail rows before, \<^verbatim>\<open>getAnalysisById\<close> by the owner
  returns the Analysis with status \<open>Completed\<close>, exactly ten classification rows whose
  names are the ten labels of \<open>DISEASE_TYPES\<close>, each once, and exactly five cell-count rows
  whose types are the five names of \<open>CELL_TYPES\<close>, each once. (On the inference path the
  rows are those the inference returned; a further callback for the same Analysis adds
  its rows to the stored ones.)
\<close>

theorem C4_first_fallback_completion_details:
  assumes fail: "runAIInference out = None"
    and rnd: "\<forall>i. 0 \<le> rnd i \<and> rnd i < 1"
    and ok: "\<not> flt Save_completed" "\<not> flt DiseaseClassification_insertMany"
      "\<not> flt CellCount_insertMany" "\<not> flt Notification_create_success"
    and fresh: "classificationsOf d (t_id t) = []" "cellCountsOf d (t_id t) = []"
    and owner: "userId (t_analysis t) = u"
    and getok: "\<not> flt' Analysis_findById" "\<not> flt' DiseaseClassification_find"
      "\<not> flt' CellCount_find"
  shows "\<exists>a dcs ccs.
           getAnalysisById flt' (t_id t) u (completion flt out rnd now t d)
             = (Json200_details a dcs ccs, completion flt out rnd now t d) \<and>
           status a = Completed \<and>
           length dcs = 10 \<and> mset (map (diseaseName \<circ> snd) dcs) = mset DISEASE_TYPES \<and>
           distinct (map (diseaseName \<circ> snd) dcs) \<and>
           length ccs = 5 \<and> mset (map (cellType \<circ> snd) ccs) = mset (map fst CELL_TYPES) \<and>
           distinct (map (cellType \<circ> snd) ccs)"
proof -
  let ?d' = "completion flt out rnd now t d"
  have r0: "0 \<le> rnd 0" "rnd 0 < 1" using rnd by auto
  obtain r where gen: "generateMockAnalysisResults rnd = Inr r"
    using generateMock_total[of rnd, OF r0] by blast
  have res: "obtainResults out rnd = Inr r" using gen fail by (simp add: obtainResults_fallback)
  have stored: "analysisColl ?d' (t_id t) = Some (assignResults (t_analysis t) r now)"
    unfolding completion_success[OF res ok] by simp
  have own: "userId (assignResults (t_analysis t) r now) = u"
    using owner by (simp add: assignResults_def)
  obtain dcs ccs where get: "getAnalysisById flt' (t_id t) u ?d'
        = (Json200_details (assignResults (t_analysis t) r now) dcs ccs, ?d')"
    and dcs: "mset (map snd dcs) = mset (classificationsOf ?d' (t_id t))"
    and ccs: "mset (map snd ccs) = mset (cellCountsOf ?d' (t_id t))"
    using getAnalysisById_details[OF stored own getok] by blast
  have dcs': "mset (map snd dcs) = mset (res_diseaseClassifications r)"
    using dcs classificationsOf_completion_success(1)[OF res ok, of now t d] fresh by simp
  have ccs': "mset (map snd ccs) = mset (res_cellCounts r)"
    using ccs classificationsOf_completion_success(2)[OF res ok, of now t d] fresh by simp
  have "mset (map (diseaseName \<circ> snd) dcs) = image_mset diseaseName (mset (map snd dcs))"
    by (simp add: multiset.map_comp)
  also have "\<dots> = mset (map diseaseName (res_diseaseClassifications r))"
    unfolding dcs' by simp
  finally have names: "mset (map (diseaseName \<circ> snd) dcs) = mset DISEASE_TYPES"
    by (simp only: generateMock_classification_names[OF gen])
  have "mset (map (cellType \<circ> snd) ccs) = image_mset cellType (mset (map snd ccs))"
    by (simp add: multiset.map_comp)
  also have "\<dots> = mset (map cellType (res_cellCounts r))"
    unfolding ccs' by simp
  finally have types: "mset (map (cellType \<circ> snd) ccs) = mset (map fst CELL_TYPES)"
    by (simp only: generateMock_cellTypes[OF gen])
  have "size (mset (map snd dcs)) = size (mset (res_diseaseClassifications r))"
    by (simp only: dcs')
  then have ldcs: "length dcs = 10"
    using generateMock_classification_length[OF gen] by simp
  have "size (mset (map snd ccs)) = size (mset (res_cellCounts r))"
    by (simp only: ccs')
  then have lccs: "length ccs = 5"
    using generateMock_cell_length[OF gen] by simp
  have dn: "distinct (map (diseaseName \<circ> snd) dcs)"
    using mset_eq_imp_distinct_iff[OF names] distinct_DISEASE_TYPES by blast
  have dt: "distinct (map (cellType \<circ> snd) ccs)"
    using mset_eq_imp_distinct_iff[OF types] distinct_CELL_TYPES by blast
  have "status (assignResults (t_analysis t) r now) = Completed" by (simp add: assignResults_def)
  with get names types ldcs lccs dn dt show ?thesis by blast
qed

text \<open>
  The amended claim in the sample run.
\<close>

theorem C4_first_completion_witness:
  "\<exists>a dcs ccs.
     getAnalysisById noFaults 0 1 (completion noFaults ExecFailed (\<lambda>_. 0) 0 sampleTask sampleDb)
       = (Json200_details a dcs ccs, completion noFaults ExecFailed (\<lambda>_. 0) 0 sampleTask sampleDb) \<and>
     status a = Completed \<and>
     length dcs = 10 \<and> mset (map (diseaseName \<circ> snd) dcs) = mset DISEASE_TYPES \<and>
     distinct (map (diseaseName \<circ> snd) dcs) \<and>
     length ccs = 5 \<and> mset (map (cellType \<circ> snd) ccs) = mset (map fst CELL_TYPES) \<and>
     distinct (map (cellType \<circ> snd) ccs)"
proof -
  have rnd: "\<forall>i::nat. (0::real) \<le> (\<lambda>_. 0) i \<and> (\<lambda>_. 0::real) i < 1" by simp
  have fail: "runAIInference ExecFailed = None" by simp
  have nf: "\<not> noFaults c" for c by (simp add: noFaults_def)
  note ok = nf[of Save_completed] nf[of DiseaseClassification_insertMany]
    nf[of CellCount_insertMany] nf[of Notification_create_success]
  note getok = nf[of Analysis_findById] nf[of DiseaseClassification_find] nf[of CellCount_find]
  have fresh: "classificationsOf sampleDb (t_id sampleTask) = []"
    "cellCountsOf sampleDb (t_id sampleTask) = []"
    by (simp_all add: classificationsOf_def cellCountsOf_def sampleDb_def)
  have owner: "userId (t_analysis sampleTask) = 1" by (simp add: sampleTask_def sampleDoc_def)
  have tid: "t_id sampleTask = 0" by (simp add: sampleTask_def)
  from C4_first_fallback_completion_details[where now = 0, OF fail rnd ok fresh owner getok]
  show ?thesis unfolding tid .
qed

subsection \<open>C6: numeric ranges\<close>

text \<open>
  C6, as stated, fails on the inference path. The callback copies the numbers of a
  successful inference into the database without a check: an answer with confidence 150
  and a cell row with percentage 250 and 5 abnormal cells out of 1 is stored as it is.
\<close>

theorem C6_counterexample_inference_out_of_range:
  "map_option confidenceScore
     (analysisColl (completion noFaults (Parsed True sampleOutOfRange) (\<lambda>_. 0) 0
        sampleTask sampleDb) 0) = Some (Some 150) \<and>
   map percentage (cellCountsOf (completion noFaults (Parsed True sampleOutOfRange) (\<lambda>_. 0) 0
        sampleTask sampleDb) 0) = [250] \<and>
   map abnormalCount (cellCountsOf (completion noFaults (Parsed True sampleOutOfRange) (\<lambda>_. 0) 0
        sampleTask sampleDb) 0) = [5] \<and>
   map count (cellCountsOf (completion noFaults (Parsed True sampleOutOfRange) (\<lambda>_. 0) 0
        sampleTask sampleDb) 0) = [1]"
proof -
  have nf: "\<not> noFaults c" for c by (simp add: noFaults_def)
  show ?thesis
    unfolding completion_success[OF obtainResults_real nf nf nf nf]
    by (simp add: cellCountsOf_def assignResults_def sampleOutOfRange_def sampleTask_def
        sampleDb_def)
qed

text \<open>
  C6, amended. The ranges are kept as far as the results are within them: if every stored
  confidence score is in \<open>[0, 100]\<close> and every stored cell-count row has its percentage in
  \<open>[0, 100]\<close> and \<open>abnormalCount \<le> count\<close>, then the same holds after a callback, whatever
  writes reject, provided that the answer of a successful inference is itself within the
  ranges; a callback on the fallback path needs no proviso. Every request handler keeps
  the ranges too.
\<close>

theorem C6_ranges_kept_unless_inference_breaks_them:
  assumes ok: "boundsOk d"
    and rnd: "\<forall>i. 0 \<le> rnd i \<and> rnd i < 1"
    and real: "\<forall>r. runAIInference out = Some r \<longrightarrow> resultInRange r"
  shows "boundsOk (completion flt out rnd now t d) \<and>
         boundsOk (snd (createAnalysis flt' u img d)) \<and>
         boundsOk (fst (snd (processAnalysis flt' i u d))) \<and>
         boundsOk (snd (getAnalysisById flt' i u d)) \<and>
         boundsOk (snd (deleteAnalysis flt' i u d))"
proof -
  have "boundsOk (completion flt out rnd now t d)"
  proof (cases "runAIInference out")
    case None
    have r0: "0 \<le> rnd 0" "rnd 0 < 1" and r1: "0 \<le> rnd 1" "rnd 1 < 1" using rnd by auto
    obtain r where gen: "generateMockAnalysisResults rnd = Inr r"
      using generateMock_total[of rnd, OF r0] by blast
    have res: "obtainResults out rnd = Inr r" using gen None by (simp add: obtainResults_fallback)
    have conf: "0 \<le> res_confidenceScore r" "res_confidenceScore r \<le> 100"
      using generateMock_confidence[OF gen r1] by auto
    have cells: "\<forall>cc \<in> set (res_cellCounts r).
                    0 \<le> percentage cc \<and> percentage cc \<le> 100 \<and> abnormalCount cc \<le> count cc"
      using generateMock_cell_bounds[OF gen rnd] by blast
    show ?thesis by (rule boundsOk_completion[OF ok res conf cells])
  next
    case (Some r)
    have res: "obtainResults out rnd = Inr r" using Some by (simp add: obtainResults_def)
    have "resultInRange r" using real Some by blast
    then show ?thesis
      using boundsOk_completion[OF ok res] by (simp add: resultInRange_def)
  qed
  then show ?thesis using boundsOk_handlers[OF ok] by blast
qed

text \<open>
  The amended claim in the sample run, on the fallback path (stored confidence 85) and
  with an inference answer within the ranges (stored confidence 90).
\<close>

theorem C6_ranges_witness:
  "boundsOk sampleDb \<and>
   boundsOk (completion noFaults ExecFailed (\<lambda>_. 0) 0 sampleTask sampleDb) \<and>
   map_option confidenceScore
     (analysisColl (completion noFaults ExecFailed (\<lambda>_. 0) 0 sampleTask sampleDb) 0)
     = Some (Some 85) \<and>
   resultInRange sampleInRange \<and>
   boundsOk (completion noFaults (Parsed True sampleInRange) (\<lambda>_. 0) 0 sampleTask sampleDb) \<and>
   map_option confidenceScore
     (analysisColl (completion noFaults (Parsed True sampleInRange) (\<lambda>_. 0) 0 sampleTask sampleDb) 0)
     = Some (Some 90)"
proof -
  have ok: "boundsOk sampleDb" by (simp add: boundsOk_def sampleDb_def sampleDoc_def)
  have rnd: "\<forall>i::nat. (0::real) \<le> (\<lambda>_. 0) i \<and> (\<lambda>_. 0::real) i < 1" by simp
  have fb: "\<forall>r. runAIInference ExecFailed = Some r \<longrightarrow> resultInRange r" by simp
  have inr: "resultInRange sampleInRange" by (simp add: resultInRange_def sampleInRange_def)
  then have re: "\<forall>r. runAIInference (Parsed True sampleInRange) = Some r \<longrightarrow> resultInRange r"
    by simp
  obtain r where gen: "generateMockAnalysisResults (\<lambda>_. 0) = Inr r"
    and c: "res_confidenceScore r = 85"
    using sample_generated by blast
  have res: "obtainResults ExecFailed (\<lambda>_. 0) = Inr r" using gen by (simp add: sample_fallback)
  have nf: "\<not> noFaults c" for c by (simp add: noFaults_def)
  have c1: "map_option confidenceScore
     (analysisColl (completion noFaults ExecFailed (\<lambda>_. 0) 0 sampleTask sampleDb) 0)
     = Some (Some 85)"
    unfolding completion_success[OF res nf nf nf nf]
    by (simp add: assignResults_def sampleTask_def c)
  have c2: "map_option confidenceScore
     (analysisColl (completion noFaults (Parsed True sampleInRange) (\<lambda>_. 0) 0 sampleTask sampleDb) 0)
     = Some (Some 90)"
    unfolding completion_success[OF obtainResults_real nf nf nf nf]
    by (simp add: assignResults_def sampleTask_def sampleInRange_def)
  from ok inr c1 c2
    C6_ranges_kept_unless_inference_breaks_them[OF ok rnd fb, of noFaults 0 sampleTask]
    C6_ranges_kept_unless_inference_breaks_them[OF ok rnd re, of noFaults 0 sampleTask]
  show ?thesis by blast
qed

subsection \<open>C7: delete removes the detail rows\<close>

text \<open>
  C7. When \<^verbatim>\<open>deleteAnalysis\<close> answers with success, the Analysis is gone, no
  classification row and no cell-count row with its \<^verbatim>\<open>analysisId\<close> is left, and a later
  \<^verbatim>\<open>getAnalysisById\<close> for it by any user answers 404 (or 500 when its lookup rejects),
  never with details.
\<close>

theorem C7_delete_cascades:
  assumes "deleteAnalysis flt ident requester d = (Json200_deleted, d')"
  shows "analysisColl d' ident = None \<and>
         classificationsOf d' ident = [] \<and>
         cellCountsOf d' ident = [] \<and>
         fst (getAnalysisById flt' ident u d') =
           (if flt' Analysis_findById then Status500 else Status404)"
  using assms
  by (auto simp: deleteAnalysis_def getAnalysisById_def classificationsOf_def cellCountsOf_def
      Let_def filter_empty_conv split: if_splits option.splits)

text \<open>
  The theorem in the sample run: the completed Analysis has ten classification rows,
  and after the owner deletes it none is left.
\<close>

theorem C7_delete_witness:
  "(case deleteAnalysis noFaults 0 1
           (completion noFaults ExecFailed (\<lambda>_. 0) 0 sampleTask sampleDb) of
      (resp, d') \<Rightarrow>
        resp = Json200_deleted \<and> analysisColl d' 0 = None \<and>
        classificationsOf d' 0 = [] \<and> cellCountsOf d' 0 = [] \<and>
        fst (getAnalysisById noFaults 0 1 d') = Status404) \<and>
   length (classificationsOf (completion noFaults ExecFailed (\<lambda>_. 0) 0 sampleTask sampleDb) 0) = 10"
proof -
  let ?d = "completion noFaults ExecFailed (\<lambda>_. 0) 0 sampleTask sampleDb"
  obtain r where gen: "generateMockAnalysisResults (\<lambda>_. 0) = Inr r"
    and d: "?d = sampleDb\<lparr> analysisColl := (analysisColl sampleDb)(0 \<mapsto> assignResults (t_analysis sampleTask) r 0),
        classificationColl := map (Pair 0) (res_diseaseClassifications r),
        cellCountColl := map (Pair 0) (res_cellCounts r),
        notificationColl := [successNotification sampleTask r] \<rparr>"
    by (rule sample_completed)
  obtain resp d' where del: "deleteAnalysis noFaults 0 1 ?d = (resp, d')"
    by (cases "deleteAnalysis noFaults 0 1 ?d")
  have resp: "resp = Json200_deleted"
    using del unfolding d
    by (auto simp: deleteAnalysis_def noFaults_def Let_def assignResults_def sampleTask_def
        sampleDoc_def)
  have len: "length (classificationsOf ?d 0) = 10"
    unfolding d using generateMock_classification_length[OF gen]
    by (simp add: classificationsOf_def comp_def)
  from C7_delete_cascades[OF del[unfolded resp], of noFaults 1] resp del len
  show ?thesis by (simp add: noFaults_def)
qed

subsection \<open>C8: notifications of a deleted Analysis\<close>

text \<open>
  C8 does not hold of the code. In the sample run the callback creates a success
  notification with \<^verbatim>\<open>analysisId\<close> 0; after the owner deletes the Analysis, the
  Analysis is gone and the notification still carries \<^verbatim>\<open>analysisId\<close> 0.
  \<^verbatim>\<open>deleteAnalysis\<close> removes the rows of the two detail collections by hand and leaves
  the notification collection alone.
\<close>

theorem C8_delete_leaves_notification_reference:
  "(case deleteAnalysis noFaults 0 1
           (completion noFaults ExecFailed (\<lambda>_. 0) 0 sampleTask sampleDb) of
      (resp, d') \<Rightarrow>
        resp = Json200_deleted \<and> analysisColl d' 0 = None \<and>
        map n_analysisId (notificationColl d') = [Some 0])"
proof -
  let ?d = "completion noFaults ExecFailed (\<lambda>_. 0) 0 sampleTask sampleDb"
  obtain r where d: "?d = sampleDb\<lparr> analysisColl := (analysisColl sampleDb)(0 \<mapsto> assignResults (t_analysis sampleTask) r 0),
        classificationColl := map (Pair 0) (res_diseaseClassifications r),
        cellCountColl := map (Pair 0) (res_cellCounts r),
        notificationColl := [successNotification sampleTask r] \<rparr>"
    by (rule sample_completed)
  show ?thesis
    unfolding d
    by (simp add: deleteAnalysis_def noFaults_def Let_def assignResults_def sampleTask_def
        sampleDoc_def sampleDb_def successNotification_def)
qed

subsection \<open>C9: requests by another user\<close>

text \<open>
  C9. For a stored Analysis (found by the lookup) and a requester who is not its owner,
  \<^verbatim>\<open>getAnalysisById\<close>, \<^verbatim>\<open>deleteAnalysis\<close> and \<^verbatim>\<open>processAnalysis\<close> answer 403, leave the
  database as it is and schedule no callback, whatever the status of the Analysis.
\<close>

theorem C9_other_user_is_forbidden:
  assumes "analysisColl d ident = Some a" and "userId a \<noteq> requester"
    and "\<not> flt Analysis_findById"
  shows "getAnalysisById flt ident requester d = (Status403, d) \<and>
         deleteAnalysis flt ident requester d = (Status403, d) \<and>
         processAnalysis flt ident requester d = (Status403, d, None)"
  using assms by (simp add: getAnalysisById_def deleteAnalysis_def processAnalysis_def Let_def)

text \<open>
  The theorem in the sample run, with user 2 asking for the Analysis of user 1.
\<close>

theorem C9_other_user_witness:
  "getAnalysisById noFaults 0 2 sampleDb = (Status403, sampleDb) \<and>
   deleteAnalysis noFaults 0 2 sampleDb = (Status403, sampleDb) \<and>
   processAnalysis noFaults 0 2 sampleDb = (Status403, sampleDb, None)"
proof -
  have "analysisColl sampleDb 0 = Some (sampleDoc\<lparr> status := Processing \<rparr>)"
    by (simp add: sampleDb_def)
  moreover have "userId (sampleDoc\<lparr> status := Processing \<rparr>) \<noteq> 2"
    by (simp add: sampleDoc_def)
  moreover have "\<not> noFaults Analysis_findById" by (simp add: noFaults_def)
  ultimately show ?thesis by (rule C9_other_user_is_forbidden)
qed

end
